theory Spec2Isabelle
  imports Complex_Main
begin

section \<open>Strings and the Python runtime\<close>

text \<open>
  A Python \<open>str\<close> is a sequence of Unicode code points; it is modelled as a list of
  code points, so that \<open>len\<close>, \<open>in\<close>, \<open>strip\<close> and the regular expressions count what
  Python counts.  The literals of the configuration tables are written as the code
  points of their characters.

  The services call into the Python runtime: \<open>str.lower\<close>, the Unicode character
  database behind \<open>str.isspace\<close>, \<open>str.isdigit\<close>, \<open>\d\<close>, \<open>\s\<close>, \<open>\w\<close> and
  \<open>re.IGNORECASE\<close>.  None of that is code of the repository; the model takes it as
  a record that every function receives.  The clock behind \<open>datetime.now()\<close> is an
  input too: the functions that read it take the date \<open>now\<close>, as the ordinal of the day.
\<close>

type_synonym ustring = "nat list"

record runtime =
  str_lower :: "ustring \<Rightarrow> ustring"
  chr_lower :: "nat \<Rightarrow> nat"
  is_space :: "nat \<Rightarrow> bool"
  is_word :: "nat \<Rightarrow> bool"
  decimal :: "nat \<Rightarrow> nat option"
  is_digit :: "nat \<Rightarrow> bool"

text \<open>
  A runtime to evaluate the model on concrete inputs.  It agrees with CPython on the
  characters of the inputs used below: Basic Latin, the CJK ideographs U+4E00 to U+9FFF
  (uncased word characters, neither digits nor whitespace) and the fullwidth punctuation
  of the patterns.  \<open>py_whitespace\<close> is the whole table of \<open>str.isspace\<close>.
\<close>

definition basic_lower :: "nat \<Rightarrow> nat" where
  "basic_lower c = (if 65 \<le> c \<and> c \<le> 90 then c + 32 else c)"

definition py_whitespace :: "nat \<Rightarrow> bool" where
  "py_whitespace c =
     ((9 \<le> c \<and> c \<le> 13) \<or> (28 \<le> c \<and> c \<le> 32) \<or> c = 133 \<or> c = 160 \<or> c = 5760
      \<or> (8192 \<le> c \<and> c \<le> 8202) \<or> c = 8232 \<or> c = 8233 \<or> c = 8239 \<or> c = 8287
      \<or> c = 12288)"

definition basic_word :: "nat \<Rightarrow> bool" where
  "basic_word c =
     ((48 \<le> c \<and> c \<le> 57) \<or> (65 \<le> c \<and> c \<le> 90) \<or> c = 95 \<or> (97 \<le> c \<and> c \<le> 122)
      \<or> (19968 \<le> c \<and> c \<le> 40959))"

definition basic_decimal :: "nat \<Rightarrow> nat option" where
  "basic_decimal c = (if 48 \<le> c \<and> c \<le> 57 then Some (c - 48) else None)"

definition basic_runtime :: runtime where
  "basic_runtime =
     \<lparr>str_lower = map basic_lower, chr_lower = basic_lower,
      is_space = py_whitespace, is_word = basic_word, decimal = basic_decimal,
      is_digit = (\<lambda>c. 48 \<le> c \<and> c \<le> 57)\<rparr>"

text \<open>Python's \<open>needle in haystack\<close> on strings: a contiguous occurrence.\<close>

fun startswith :: "ustring \<Rightarrow> ustring \<Rightarrow> bool" where
  "startswith s [] = True"
| "startswith [] (k # ks) = False"
| "startswith (x # xs) (k # ks) = (x = k \<and> startswith xs ks)"

fun contains :: "ustring \<Rightarrow> ustring \<Rightarrow> bool" where
  "contains [] k = (k = [])"
| "contains (x # xs) k = (startswith (x # xs) k \<or> contains xs k)"

section \<open>Data model (models/claim.py)\<close>

datatype DocumentType =
  MEDICAL_RECORD | ACCIDENT_REPORT | INVOICE | IDENTITY_CARD | BANK_STATEMENT | INSURANCE_CONTRACT

text \<open>The position of a member in the definition order of the enum.\<close>

fun enum_index :: "DocumentType \<Rightarrow> nat" where
  "enum_index MEDICAL_RECORD = 0"
| "enum_index ACCIDENT_REPORT = 1"
| "enum_index INVOICE = 2"
| "enum_index IDENTITY_CARD = 3"
| "enum_index BANK_STATEMENT = 4"
| "enum_index INSURANCE_CONTRACT = 5"

record ClassificationResult =
  document_id :: ustring
  predicted_type :: DocumentType
  confidence :: rat
  alternative_types :: "DocumentType list option"

section \<open>Classifier (services/document_classifier.py)\<close>

definition supported_types :: "DocumentType list" where
  "supported_types =
     [MEDICAL_RECORD, ACCIDENT_REPORT, INVOICE, IDENTITY_CARD, BANK_STATEMENT, INSURANCE_CONTRACT]"

text \<open>
  \<open>keyword_mapping\<close> is a dict literal; Python iterates a dict in insertion order, and
  \<open>max\<close> below depends on that order, so the dict is the list of its items.
\<close>

definition keyword_mapping :: "(DocumentType \<times> ustring list) list" where
  "keyword_mapping =
   [(MEDICAL_RECORD, [[30149, 21382], [35786, 26029], [20837, 38498], [20986, 38498],
        [21307, 22065], [26816, 26597], [26816, 39564], [30149, 29702], [38376, 35786]]),
    (ACCIDENT_REPORT, [[20107, 25925], [29616, 22330], [20132, 35686], [35748, 23450, 20070],
        [30896, 25758], [25439, 20260], [25253, 26696], [35843, 26597]]),
    (INVOICE, [[21457, 31080], [37329, 39069], [36153, 29992], [25910, 25454],
        [32467, 31639], [25910, 36153], [20973, 35777]]),
    (IDENTITY_CARD, [[36523, 20221, 35777], [22995, 21517], [24615, 21035], [20986, 29983],
        [22320, 22336], [35777, 20214]]),
    (BANK_STATEMENT, [[38134, 34892], [27969, 27700], [36716, 36134], [36134, 25143],
        [23384, 27454], [21462, 27454], [20313, 39069]]),
    (INSURANCE_CONTRACT, [[20445, 38505], [21512, 21516], [26465, 27454], [25237, 20445],
        [21463, 30410], [20445, 36153], [20445, 38556]])]"

text \<open>The inner loop of \<open>_classify_content\<close>: one point per keyword that occurs.\<close>

definition keyword_score :: "runtime \<Rightarrow> ustring \<Rightarrow> ustring list \<Rightarrow> int" where
  "keyword_score U content_lower keywords =
     foldl (\<lambda>score keyword.
              if contains content_lower (str_lower U keyword) then score + 1 else score)
           0 keywords"

definition scores_of :: "runtime \<Rightarrow> ustring \<Rightarrow> (DocumentType \<times> int) list" where
  "scores_of U content =
     map (\<lambda>(doc_type, keywords). (doc_type, keyword_score U (str_lower U content) keywords))
         keyword_mapping"

text \<open>\<open>scores.get(doc_type)\<close>.\<close>

definition type_score :: "runtime \<Rightarrow> ustring \<Rightarrow> DocumentType \<Rightarrow> int option" where
  "type_score U content doc_type = map_of (scores_of U content) doc_type"

text \<open>
  \<open>max(scores, key=scores.get)\<close>: the keys in order, the first one kept unless a later
  one is strictly greater.  On an empty dict Python raises; \<open>scores\<close> has six keys.
\<close>

fun max_by_first :: "('a \<times> int) \<Rightarrow> ('a \<times> int) list \<Rightarrow> ('a \<times> int)" where
  "max_by_first best [] = best"
| "max_by_first best (x # xs) = max_by_first (if snd best < snd x then x else best) xs"

definition py_max_key :: "('a \<times> int) list \<Rightarrow> ('a \<times> int) option" where
  "py_max_key scores = (case scores of [] \<Rightarrow> None | x # xs \<Rightarrow> Some (max_by_first x xs))"

definition total_keywords :: int where
  "total_keywords = sum_list (map (\<lambda>(t, keywords). int (length keywords)) keyword_mapping)"

definition classify_content :: "runtime \<Rightarrow> ustring \<Rightarrow> (DocumentType \<times> rat) option" where
  "classify_content U content =
     (case py_max_key (scores_of U content) of
        None \<Rightarrow> None
      | Some (predicted, max_score) \<Rightarrow>
          let conf = min (of_int max_score
                          / of_int (max 1 (total_keywords div int (length keyword_mapping))))
                         1
          in if max_score = 0 then Some (MEDICAL_RECORD, 1 / 10)
             else Some (predicted, conf))"

definition get_alternative_types :: "DocumentType \<Rightarrow> DocumentType list" where
  "get_alternative_types primary_type = take 3 (filter (\<lambda>t. t \<noteq> primary_type) supported_types)"

text \<open>
  \<open>classify_document\<close> draws a fresh uuid and reads the file; both are inputs here
  (\<open>doc_id\<close>, \<open>content\<close>).
\<close>

definition classify_document :: "runtime \<Rightarrow> ustring \<Rightarrow> ustring \<Rightarrow> ClassificationResult option" where
  "classify_document U doc_id content =
     (case classify_content U content of
        None \<Rightarrow> None
      | Some (ptype, conf) \<Rightarrow>
          Some \<lparr>document_id = doc_id, predicted_type = ptype, confidence = conf,
                alternative_types = Some (get_alternative_types ptype)\<rparr>)"

section \<open>Data model, continued (models/claim.py)\<close>

record ExtractedField =
  field_name :: ustring
  field_value :: ustring
  confidence :: rat
  page_number :: "int option"
  position :: "(ustring \<times> int) list option"

record ExtractionResult =
  document_id :: ustring
  extracted_fields :: "ExtractedField list"
  extraction_accuracy :: rat

record LiabilityEvaluation =
  coverage_applicable :: bool
  exclusion_factors :: "ustring list"
  coverage_limit :: "rat option"
  recommended_payout :: rat
  evaluation_reasons :: "ustring list"
  confidence :: rat

text \<open>
  Python's \<open>float\<close> is modelled by the rationals: the arithmetic of the services is
  exact here, and the rounding error of IEEE doubles is not modelled.
\<close>

datatype py_error = ValueError | TypeError | KeyError | ValidationError

text \<open>An ASCII literal as a Python string.\<close>

definition u :: "string \<Rightarrow> ustring" where
  "u s = map of_char s"

section \<open>Python's \<open>str\<close> methods\<close>

definition strip :: "runtime \<Rightarrow> ustring \<Rightarrow> ustring" where
  "strip U s = rev (dropWhile (is_space U) (rev (dropWhile (is_space U) s)))"

text \<open>\<open>s.replace(c, new)\<close> for a one-character \<open>c\<close>.\<close>

definition replace_char :: "nat \<Rightarrow> ustring \<Rightarrow> ustring \<Rightarrow> ustring" where
  "replace_char c new s = concat (map (\<lambda>x. if x = c then new else [x]) s)"

definition isdigit :: "runtime \<Rightarrow> ustring \<Rightarrow> bool" where
  "isdigit U s = (s \<noteq> [] \<and> list_all (is_digit U) s)"

text \<open>The value of a run of decimal digits; a character without a decimal value counts 0.\<close>

definition digits_value :: "runtime \<Rightarrow> ustring \<Rightarrow> nat" where
  "digits_value U ds =
     foldl (\<lambda>acc c. 10 * acc + (case decimal U c of None \<Rightarrow> 0 | Some d \<Rightarrow> d)) 0 ds"

text \<open>
  \<open>int(s)\<close> on a string that passed \<open>isdigit\<close>: such a string has no sign, blank or
  underscore, and \<open>int\<close> accepts it exactly when every character is a decimal digit
  (\<open>isdigit\<close> also holds of digits that are not decimal, such as superscripts) and
  there are at most 4300 of them, the limit of CPython on the conversion.
\<close>

definition py_int :: "runtime \<Rightarrow> ustring \<Rightarrow> py_error + int" where
  "py_int U s =
     (if s \<noteq> [] \<and> length s \<le> 4300 \<and> list_all (\<lambda>c. decimal U c \<noteq> None) s
      then Inr (int (digits_value U s))
      else Inl ValueError)"

text \<open>
  \<open>float(token)\<close> on a token of the pattern \<open>\d+(?:\.\d+)?\<close>: digits, then perhaps a
  point and digits.  \<open>float\<close> cannot raise on such a token.
\<close>

definition py_float :: "runtime \<Rightarrow> ustring \<Rightarrow> rat" where
  "py_float U token =
     (let int_part = takeWhile (\<lambda>c. c \<noteq> 46) token;
          frac_part = drop 1 (dropWhile (\<lambda>c. c \<noteq> 46) token)
      in of_nat (digits_value U int_part)
         + of_nat (digits_value U frac_part) / 10 ^ length frac_part)"

text \<open>
  \<open>round(x, 2)\<close>: to the nearest multiple of 0.01, a tie to the even one.
\<close>

definition round_half_even :: "rat \<Rightarrow> int" where
  "round_half_even x =
     (let f = \<lfloor>x\<rfloor>; d = x - of_int f
      in if d < 1 / 2 then f else if 1 / 2 < d then f + 1 else if even f then f else f + 1)"

definition py_round2 :: "rat \<Rightarrow> rat" where
  "py_round2 x = of_int (round_half_even (x * 100)) / 100"

text \<open>\<open>str(n)\<close> for a length, and \<open>sep.join(xs)\<close>.\<close>

fun str_of_nat :: "nat \<Rightarrow> ustring" where
  "str_of_nat n = (if n < 10 then [48 + n] else str_of_nat (n div 10) @ [48 + n mod 10])"

fun join :: "ustring \<Rightarrow> ustring list \<Rightarrow> ustring" where
  "join sep [] = []"
| "join sep [x] = x"
| "join sep (x # y # ys) = x @ sep @ join sep (y # ys)"

section \<open>Python's \<open>re\<close>: the patterns of the services\<close>

text \<open>
  The patterns use literals, character sets, groups, alternation and greedy
  repetition.  A pattern is the syntax tree of its text, with the capturing groups
  numbered by their opening parenthesis.  Matching is the backtracking search of \<open>re\<close>:
  \<open>rmatch\<close> lists every way to match at the start of the input in the order the search
  tries them, so that the head of the list is the match \<open>re\<close> reports.
\<close>

datatype citem = Ch nat | Rng nat nat | ClsDigit | ClsSpace | ClsWord

datatype regex =
    Eps
  | Lit nat
  | Cls "citem list"
  | NCls "citem list"
  | Cat regex regex
  | Alt regex regex
  | Rep nat "nat option" regex
  | Grp nat regex

definition seq :: "regex list \<Rightarrow> regex" where
  "seq rs = foldr Cat rs Eps"

text \<open>
  Under \<open>re.IGNORECASE\<close> the members of a set and the character of the input are both
  lower-cased before they are compared; without the flag they are compared as they are.
\<close>

definition fold_case :: "runtime \<Rightarrow> bool \<Rightarrow> nat \<Rightarrow> nat" where
  "fold_case U icase c = (if icase then chr_lower U c else c)"

primrec item_match :: "runtime \<Rightarrow> bool \<Rightarrow> citem \<Rightarrow> nat \<Rightarrow> bool" where
  "item_match U icase (Ch c) x = (x = fold_case U icase c)"
| "item_match U icase (Rng a b) x =
     (if icase then list_ex (\<lambda>m. chr_lower U m = x) [a..<Suc b] else a \<le> x \<and> x \<le> b)"
| "item_match U icase ClsDigit x = (decimal U x \<noteq> None)"
| "item_match U icase ClsSpace x = is_space U x"
| "item_match U icase ClsWord x = is_word U x"

definition class_match :: "runtime \<Rightarrow> bool \<Rightarrow> citem list \<Rightarrow> nat \<Rightarrow> bool" where
  "class_match U icase items x = list_ex (\<lambda>i. item_match U icase i (fold_case U icase x)) items"

text \<open>A state of the search: the input still to read, and the groups captured so far.\<close>

type_synonym mstate = "ustring \<times> (nat \<times> ustring) list"

fun exactly :: "(mstate \<Rightarrow> mstate list) \<Rightarrow> nat \<Rightarrow> mstate \<Rightarrow> mstate list" where
  "exactly f 0 st = [st]"
| "exactly f (Suc k) st = concat (map (exactly f k) (f st))"

fun at_most :: "(mstate \<Rightarrow> mstate list) \<Rightarrow> nat \<Rightarrow> mstate \<Rightarrow> mstate list" where
  "at_most f 0 st = [st]"
| "at_most f (Suc k) st = concat (map (at_most f k) (f st)) @ [st]"

text \<open>
  Unbounded greedy repetition.  An iteration that reads nothing is not repeated, so
  the length of the input bounds the number of iterations.
\<close>

fun many :: "(mstate \<Rightarrow> mstate list) \<Rightarrow> nat \<Rightarrow> mstate \<Rightarrow> mstate list" where
  "many f 0 st = [st]"
| "many f (Suc k) st =
     concat (map (\<lambda>st'. if length (fst st') < length (fst st) then many f k st' else [])
                 (f st)) @ [st]"

primrec rmatch :: "runtime \<Rightarrow> bool \<Rightarrow> regex \<Rightarrow> mstate \<Rightarrow> mstate list" where
  "rmatch U icase Eps st = [st]"
| "rmatch U icase (Lit c) st =
     (case fst st of [] \<Rightarrow> []
      | x # xs \<Rightarrow> if fold_case U icase x = fold_case U icase c then [(xs, snd st)] else [])"
| "rmatch U icase (Cls items) st =
     (case fst st of [] \<Rightarrow> []
      | x # xs \<Rightarrow> if class_match U icase items x then [(xs, snd st)] else [])"
| "rmatch U icase (NCls items) st =
     (case fst st of [] \<Rightarrow> []
      | x # xs \<Rightarrow> if \<not> class_match U icase items x then [(xs, snd st)] else [])"
| "rmatch U icase (Cat a b) st = concat (map (rmatch U icase b) (rmatch U icase a st))"
| "rmatch U icase (Alt a b) st = rmatch U icase a st @ rmatch U icase b st"
| "rmatch U icase (Rep lo hi a) st =
     concat (map (\<lambda>st'. case hi of
                          None \<Rightarrow> many (rmatch U icase a) (length (fst st')) st'
                        | Some h \<Rightarrow> at_most (rmatch U icase a) (h - lo) st')
                 (exactly (rmatch U icase a) lo st))"
| "rmatch U icase (Grp i a) st =
     map (\<lambda>st'. (fst st', (i, take (length (fst st) - length (fst st')) (fst st)) # snd st'))
         (rmatch U icase a st)"

primrec ngroups :: "regex \<Rightarrow> nat" where
  "ngroups Eps = 0"
| "ngroups (Lit c) = 0"
| "ngroups (Cls items) = 0"
| "ngroups (NCls items) = 0"
| "ngroups (Cat a b) = ngroups a + ngroups b"
| "ngroups (Alt a b) = ngroups a + ngroups b"
| "ngroups (Rep lo hi a) = ngroups a"
| "ngroups (Grp i a) = Suc (ngroups a)"

text \<open>\<open>m.group(i)\<close> as \<open>findall\<close> reports it: a group that took no part is the empty string.\<close>

definition group_text :: "(nat \<times> ustring) list \<Rightarrow> nat \<Rightarrow> ustring" where
  "group_text caps i = (case map_of caps i of None \<Rightarrow> [] | Some g \<Rightarrow> g)"

text \<open>
  An element of the list \<open>re.findall\<close> returns: the whole match when the pattern has no
  group, the group when it has one, the tuple of the groups when it has several (a
  tuple is never empty: its first component and the others).
\<close>

datatype match_item = MStr ustring | MTuple ustring "ustring list"

text \<open>The text a match has read, from the input it started on and the state it ended in.\<close>

definition whole_match :: "ustring \<Rightarrow> mstate \<Rightarrow> ustring" where
  "whole_match s st = take (length s - length (fst st)) s"

definition findall_item :: "regex \<Rightarrow> ustring \<Rightarrow> mstate \<Rightarrow> match_item" where
  "findall_item r s st =
     (let n = ngroups r
      in if n = 0 then MStr (whole_match s st)
         else if n = 1 then MStr (group_text (snd st) 1)
         else MTuple (group_text (snd st) 1) (map (group_text (snd st)) [2..<Suc n]))"

text \<open>
  \<open>re.findall\<close>: the matches from left to right, each search starting where the
  previous match ended (\<open>skip\<close> counts the characters of the input that the previous
  match has read); after an empty match the search moves on by one character.
\<close>

fun findall_scan :: "runtime \<Rightarrow> bool \<Rightarrow> regex \<Rightarrow> ustring \<Rightarrow> nat \<Rightarrow> match_item list" where
  "findall_scan U icase r [] skip =
     (if 0 < skip then []
      else (case rmatch U icase r ([], []) of [] \<Rightarrow> [] | st # _ \<Rightarrow> [findall_item r [] st]))"
| "findall_scan U icase r (x # xs) skip =
     (if 0 < skip then findall_scan U icase r xs (skip - 1)
      else (case rmatch U icase r (x # xs, []) of
              [] \<Rightarrow> findall_scan U icase r xs 0
            | st # _ \<Rightarrow>
                findall_item r (x # xs) st
                # findall_scan U icase r xs (length (x # xs) - length (fst st) - 1)))"

definition findall :: "runtime \<Rightarrow> bool \<Rightarrow> regex \<Rightarrow> ustring \<Rightarrow> match_item list" where
  "findall U icase r s = findall_scan U icase r s 0"

section \<open>Field extractor (services/keyword_extractor.py)\<close>

record field_def =
  fd_name :: ustring
  fd_pattern :: regex
  fd_description :: ustring

definition field_definitions :: "(DocumentType \<times> field_def list) list" where
  "field_definitions =
  [(MEDICAL_RECORD,
     [\<lparr>fd_name = [112, 97, 116, 105, 101, 110, 116, 95, 110, 97, 109, 101],
        fd_pattern = seq [Lit 24739, Lit 32773, Cls [Ch 65306, Ch 58],
          Rep 0 None (Cls [ClsSpace]), Grp 1 (Rep 1 None (NCls [Ch 10, Ch 13]))],
        fd_description = [24739, 32773, 22995, 21517]\<rparr>,
      \<lparr>fd_name = [100, 105, 97, 103, 110, 111, 115, 105, 115],
        fd_pattern = seq [Grp 1 (Alt (seq [Lit 35786, Lit 26029]) (seq [Lit 21021, Lit 27493,
          Lit 35786, Lit 26029])), Cls [Ch 65306, Ch 58], Rep 0 None (Cls [ClsSpace]),
          Grp 2 (Rep 1 None (NCls [Ch 10, Ch 13]))],
        fd_description = [35786, 26029, 32467, 26524]\<rparr>,
      \<lparr>fd_name = [97, 100, 109, 105, 115, 115, 105, 111, 110, 95, 100, 97, 116, 101],
        fd_pattern = seq [Grp 1 (Alt (seq [Lit 20837, Lit 38498, Lit 26085,
          Lit 26399]) (seq [Lit 20303, Lit 38498, Lit 26085, Lit 26399])), Cls [Ch 65306,
          Ch 58], Rep 0 None (Cls [ClsSpace]), Grp 2 (seq [Rep 4 (Some 4) (Cls [ClsDigit]),
          Cls [Ch 45, Ch 24180], Rep 1 (Some 2) (Cls [ClsDigit]), Cls [Ch 45, Ch 26376],
          Rep 1 (Some 2) (Cls [ClsDigit]), Rep 0 (Some 1) (Cls [Ch 26085, Ch 22825])])],
        fd_description = [20837, 38498, 26085, 26399]\<rparr>,
      \<lparr>fd_name = [100, 105, 115, 99, 104, 97, 114, 103, 101, 95, 100, 97, 116, 101],
        fd_pattern = seq [Grp 1 (seq [Lit 20986, Lit 38498, Lit 26085, Lit 26399]),
          Cls [Ch 65306, Ch 58], Rep 0 None (Cls [ClsSpace]),
          Grp 2 (seq [Rep 4 (Some 4) (Cls [ClsDigit]), Cls [Ch 45, Ch 24180],
          Rep 1 (Some 2) (Cls [ClsDigit]), Cls [Ch 45, Ch 26376],
          Rep 1 (Some 2) (Cls [ClsDigit]), Rep 0 (Some 1) (Cls [Ch 26085, Ch 22825])])],
        fd_description = [20986, 38498, 26085, 26399]\<rparr>,
      \<lparr>fd_name = [104, 111, 115, 112, 105, 116, 97, 108, 95, 110, 97, 109, 101],
        fd_pattern = seq [Grp 1 (Alt (seq [Lit 21307, Lit 38498]) (seq [Lit 21307, Lit 30103,
          Lit 26426, Lit 26500])), Cls [Ch 65306, Ch 58], Rep 0 None (Cls [ClsSpace]),
          Grp 2 (Rep 1 None (NCls [Ch 10, Ch 13]))],
        fd_description = [21307, 38498, 21517, 31216]\<rparr>,
      \<lparr>fd_name = [100, 111, 99, 116, 111, 114, 95, 110, 97, 109, 101],
        fd_pattern = seq [Grp 1 (Alt (seq [Lit 20027, Lit 27835, Lit 21307,
          Lit 24072]) (seq [Lit 21307, Lit 29983])), Cls [Ch 65306, Ch 58],
          Rep 0 None (Cls [ClsSpace]), Grp 2 (Rep 1 None (NCls [Ch 10, Ch 13]))],
        fd_description = [21307, 29983, 22995, 21517]\<rparr>]),
   (ACCIDENT_REPORT,
     [\<lparr>fd_name = [97, 99, 99, 105, 100, 101, 110, 116, 95, 100, 97, 116, 101],
        fd_pattern = seq [Grp 1 (Alt (seq [Lit 20107, Lit 25925, Lit 26085,
          Lit 26399]) (seq [Lit 21457, Lit 29983, Lit 26102, Lit 38388])), Cls [Ch 65306,
          Ch 58], Rep 0 None (Cls [ClsSpace]), Grp 2 (seq [Rep 4 (Some 4) (Cls [ClsDigit]),
          Cls [Ch 45, Ch 24180], Rep 1 (Some 2) (Cls [ClsDigit]), Cls [Ch 45, Ch 26376],
          Rep 1 (Some 2) (Cls [ClsDigit]), Rep 0 (Some 1) (Cls [Ch 26085, Ch 22825])])],
        fd_description = [20107, 25925, 26085, 26399]\<rparr>,
      \<lparr>fd_name = [97, 99, 99, 105, 100, 101, 110, 116, 95, 108, 111, 99, 97, 116, 105, 111,
          110],
        fd_pattern = seq [Grp 1 (Alt (seq [Lit 20107, Lit 25925, Lit 22320,
          Lit 28857]) (seq [Lit 29616, Lit 22330, Lit 20301, Lit 32622])), Cls [Ch 65306,
          Ch 58], Rep 0 None (Cls [ClsSpace]), Grp 2 (Rep 1 None (NCls [Ch 10, Ch 13]))],
        fd_description = [20107, 25925, 22320, 28857]\<rparr>,
      \<lparr>fd_name = [112, 97, 114, 116, 105, 101, 115, 95, 105, 110, 118, 111, 108, 118, 101,
          100],
        fd_pattern = seq [Grp 1 (Alt (seq [Lit 24403, Lit 20107, Lit 20154]) (seq [Lit 28041,
          Lit 20107, Lit 20154, Lit 21592])), Cls [Ch 65306, Ch 58],
          Rep 0 None (Cls [ClsSpace]), Grp 2 (Rep 1 None (NCls [Ch 10, Ch 13]))],
        fd_description = [28041, 21450, 20154, 21592]\<rparr>,
      \<lparr>fd_name = [97, 99, 99, 105, 100, 101, 110, 116, 95, 100, 101, 115, 99, 114, 105, 112,
          116, 105, 111, 110],
        fd_pattern = seq [Grp 1 (Alt (seq [Lit 20107, Lit 25925, Lit 32463,
          Lit 36807]) (seq [Lit 31616, Lit 35201, Lit 25551, Lit 36848])), Cls [Ch 65306,
          Ch 58], Rep 0 None (Cls [ClsSpace]), Grp 2 (Rep 1 None (NCls [Ch 10, Ch 13]))],
        fd_description = [20107, 25925, 25551, 36848]\<rparr>,
      \<lparr>fd_name = [112, 111, 108, 105, 99, 101, 95, 115, 116, 97, 116, 105, 111, 110],
        fd_pattern = seq [Grp 1 (Alt (seq [Lit 20132, Lit 35686, Lit 38431]) (seq [Lit 27966,
          Lit 20986, Lit 25152])), Cls [Ch 65306, Ch 58], Rep 0 None (Cls [ClsSpace]),
          Grp 2 (Rep 1 None (NCls [Ch 10, Ch 13]))],
        fd_description = [25191, 27861, 21333, 20301]\<rparr>]),
   (INVOICE,
     [\<lparr>fd_name = [105, 110, 118, 111, 105, 99, 101, 95, 110, 117, 109, 98, 101, 114],
        fd_pattern = seq [Grp 1 (Alt (seq [Lit 21457, Lit 31080, Lit 21495,
          Lit 30721]) (seq [Lit 21457, Lit 31080, Lit 21495])), Cls [Ch 65306, Ch 58],
          Rep 0 None (Cls [ClsSpace]), Grp 2 (Rep 1 None (Cls [Rng 65 90, ClsDigit]))],
        fd_description = [21457, 31080, 21495, 30721]\<rparr>,
      \<lparr>fd_name = [105, 110, 118, 111, 105, 99, 101, 95, 97, 109, 111, 117, 110, 116],
        fd_pattern = seq [Grp 1 (Alt (seq [Lit 37329, Lit 39069]) (seq [Lit 21512, Lit 35745])),
          Cls [Ch 65306, Ch 58], Rep 0 None (Cls [ClsSpace]),
          Grp 2 (seq [Rep 1 None (Cls [Ch 165, Ch 65509, Ch 36, ClsWord]),
          Rep 1 None (Cls [ClsDigit]), Rep 0 (Some 1) (seq [Lit 46,
          Rep 1 None (Cls [ClsDigit])])])],
        fd_description = [21457, 31080, 37329, 39069]\<rparr>,
      \<lparr>fd_name = [105, 110, 118, 111, 105, 99, 101, 95, 100, 97, 116, 101],
        fd_pattern = seq [Grp 1 (Alt (seq [Lit 24320, Lit 31080, Lit 26085,
          Lit 26399]) (seq [Lit 26085, Lit 26399])), Cls [Ch 65306, Ch 58],
          Rep 0 None (Cls [ClsSpace]), Grp 2 (seq [Rep 4 (Some 4) (Cls [ClsDigit]), Cls [Ch 45,
          Ch 24180], Rep 1 (Some 2) (Cls [ClsDigit]), Cls [Ch 45, Ch 26376],
          Rep 1 (Some 2) (Cls [ClsDigit]), Rep 0 (Some 1) (Cls [Ch 26085, Ch 22825])])],
        fd_description = [24320, 31080, 26085, 26399]\<rparr>,
      \<lparr>fd_name = [112, 114, 111, 118, 105, 100, 101, 114],
        fd_pattern = seq [Grp 1 (Alt (seq [Lit 38144, Lit 21806,
          Lit 26041]) (Alt (seq [Lit 25910, Lit 27454, Lit 26041]) (seq [Lit 20379, Lit 24212,
          Lit 21830]))), Cls [Ch 65306, Ch 58], Rep 0 None (Cls [ClsSpace]),
          Grp 2 (Rep 1 None (NCls [Ch 10, Ch 13]))],
        fd_description = [25552, 20379, 21830]\<rparr>,
      \<lparr>fd_name = [114, 101, 99, 105, 112, 105, 101, 110, 116],
        fd_pattern = seq [Grp 1 (Alt (seq [Lit 36141, Lit 20080,
          Lit 26041]) (Alt (seq [Lit 20184, Lit 27454, Lit 26041]) (seq [Lit 23458,
          Lit 25143]))), Cls [Ch 65306, Ch 58], Rep 0 None (Cls [ClsSpace]),
          Grp 2 (Rep 1 None (NCls [Ch 10, Ch 13]))],
        fd_description = [25509, 25910, 26041]\<rparr>]),
   (IDENTITY_CARD,
     [\<lparr>fd_name = [110, 97, 109, 101],
        fd_pattern = seq [Lit 22995, Lit 21517, Cls [Ch 65306, Ch 58],
          Rep 0 None (Cls [ClsSpace]), Grp 1 (Rep 1 None (NCls [Ch 10, Ch 13]))],
        fd_description = [22995, 21517]\<rparr>,
      \<lparr>fd_name = [105, 100, 95, 110, 117, 109, 98, 101, 114],
        fd_pattern = seq [Lit 36523, Lit 20221, Lit 35777, Lit 21495, Cls [Ch 65306, Ch 58],
          Rep 0 None (Cls [ClsSpace]), Grp 1 (seq [Rep 17 (Some 17) (Cls [ClsDigit]),
          Cls [ClsDigit, Ch 88, Ch 120]])],
        fd_description = [36523, 20221, 35777, 21495]\<rparr>,
      \<lparr>fd_name = [103, 101, 110, 100, 101, 114],
        fd_pattern = seq [Lit 24615, Lit 21035, Cls [Ch 65306, Ch 58],
          Rep 0 None (Cls [ClsSpace]), Grp 1 (Rep 1 None (NCls [Ch 10, Ch 13]))],
        fd_description = [24615, 21035]\<rparr>,
      \<lparr>fd_name = [98, 105, 114, 116, 104, 95, 100, 97, 116, 101],
        fd_pattern = seq [Lit 20986, Lit 29983, Cls [Ch 65306, Ch 58],
          Rep 0 None (Cls [ClsSpace]), Grp 1 (seq [Rep 4 (Some 4) (Cls [ClsDigit]), Cls [Ch 45,
          Ch 24180], Rep 1 (Some 2) (Cls [ClsDigit]), Cls [Ch 45, Ch 26376],
          Rep 1 (Some 2) (Cls [ClsDigit]), Rep 0 (Some 1) (Cls [Ch 26085, Ch 22825])])],
        fd_description = [20986, 29983, 26085, 26399]\<rparr>,
      \<lparr>fd_name = [97, 100, 100, 114, 101, 115, 115],
        fd_pattern = seq [Lit 20303, Lit 22336, Cls [Ch 65306, Ch 58],
          Rep 0 None (Cls [ClsSpace]), Grp 1 (Rep 1 None (NCls [Ch 10, Ch 13]))],
        fd_description = [22320, 22336]\<rparr>]),
   (BANK_STATEMENT,
     [\<lparr>fd_name = [97, 99, 99, 111, 117, 110, 116, 95, 110, 117, 109, 98, 101, 114],
        fd_pattern = seq [Grp 1 (Alt (seq [Lit 36134, Lit 21495]) (seq [Lit 21345, Lit 21495])),
          Cls [Ch 65306, Ch 58], Rep 0 None (Cls [ClsSpace]), Grp 2 (Rep 1 None (Cls [ClsDigit,
          ClsSpace]))],
        fd_description = [36134, 25143, 21495, 30721]\<rparr>,
      \<lparr>fd_name = [97, 99, 99, 111, 117, 110, 116, 95, 104, 111, 108, 100, 101, 114],
        fd_pattern = seq [Grp 1 (Alt (seq [Lit 25143, Lit 21517]) (seq [Lit 36134, Lit 25143,
          Lit 25345, Lit 26377, Lit 20154])), Cls [Ch 65306, Ch 58],
          Rep 0 None (Cls [ClsSpace]), Grp 2 (Rep 1 None (NCls [Ch 10, Ch 13]))],
        fd_description = [36134, 25143, 25345, 26377, 20154]\<rparr>,
      \<lparr>fd_name = [98, 97, 108, 97, 110, 99, 101],
        fd_pattern = seq [Grp 1 (Alt (seq [Lit 20313, Lit 39069]) (seq [Lit 24403, Lit 21069,
          Lit 20313, Lit 39069])), Cls [Ch 65306, Ch 58], Rep 0 None (Cls [ClsSpace]),
          Grp 2 (seq [Rep 1 None (Cls [Ch 165, Ch 65509, Ch 36, ClsWord]),
          Rep 1 None (Cls [ClsDigit]), Rep 0 (Some 1) (seq [Lit 46,
          Rep 1 None (Cls [ClsDigit])])])],
        fd_description = [20313, 39069]\<rparr>,
      \<lparr>fd_name = [115, 116, 97, 116, 101, 109, 101, 110, 116, 95, 112, 101, 114, 105, 111,
          100],
        fd_pattern = seq [Grp 1 (Alt (seq [Lit 36134, Lit 21333, Lit 26399,
          Lit 38388]) (seq [Lit 23545, Lit 36134, Lit 21333, Lit 26399, Lit 38388])),
          Cls [Ch 65306, Ch 58], Rep 0 None (Cls [ClsSpace]), Grp 2 (Rep 1 None (NCls [Ch 10,
          Ch 13]))],
        fd_description = [36134, 21333, 26399, 38388]\<rparr>]),
   (INSURANCE_CONTRACT,
     [\<lparr>fd_name = [112, 111, 108, 105, 99, 121, 95, 110, 117, 109, 98, 101, 114],
        fd_pattern = seq [Grp 1 (Alt (seq [Lit 20445, Lit 21333, Lit 21495]) (seq [Lit 20445,
          Lit 38505, Lit 21333, Lit 21495])), Cls [Ch 65306, Ch 58],
          Rep 0 None (Cls [ClsSpace]), Grp 2 (Rep 1 None (Cls [Rng 65 90, ClsDigit]))],
        fd_description = [20445, 21333, 21495]\<rparr>,
      \<lparr>fd_name = [112, 111, 108, 105, 99, 121, 95, 104, 111, 108, 100, 101, 114],
        fd_pattern = seq [Grp 1 (seq [Lit 25237, Lit 20445, Lit 20154]), Cls [Ch 65306, Ch 58],
          Rep 0 None (Cls [ClsSpace]), Grp 2 (Rep 1 None (NCls [Ch 10, Ch 13]))],
        fd_description = [25237, 20445, 20154]\<rparr>,
      \<lparr>fd_name = [105, 110, 115, 117, 114, 101, 100, 95, 112, 101, 114, 115, 111, 110],
        fd_pattern = seq [Grp 1 (seq [Lit 34987, Lit 20445, Lit 38505, Lit 20154]),
          Cls [Ch 65306, Ch 58], Rep 0 None (Cls [ClsSpace]), Grp 2 (Rep 1 None (NCls [Ch 10,
          Ch 13]))],
        fd_description = [34987, 20445, 38505, 20154]\<rparr>,
      \<lparr>fd_name = [99, 111, 118, 101, 114, 97, 103, 101, 95, 97, 109, 111, 117, 110, 116],
        fd_pattern = seq [Grp 1 (Alt (seq [Lit 20445, Lit 38505, Lit 37329,
          Lit 39069]) (seq [Lit 20445, Lit 39069])), Cls [Ch 65306, Ch 58],
          Rep 0 None (Cls [ClsSpace]), Grp 2 (seq [Rep 1 None (Cls [Ch 165, Ch 65509, Ch 36,
          ClsWord]), Rep 1 None (Cls [ClsDigit]), Rep 0 (Some 1) (seq [Lit 46,
          Rep 1 None (Cls [ClsDigit])])])],
        fd_description = [20445, 38505, 37329, 39069]\<rparr>,
      \<lparr>fd_name = [101, 102, 102, 101, 99, 116, 105, 118, 101, 95, 100, 97, 116, 101],
        fd_pattern = seq [Grp 1 (Alt (seq [Lit 29983, Lit 25928, Lit 26085,
          Lit 26399]) (seq [Lit 20445, Lit 38505, Lit 26399, Lit 38388])), Cls [Ch 65306,
          Ch 58], Rep 0 None (Cls [ClsSpace]), Grp 2 (seq [Rep 4 (Some 4) (Cls [ClsDigit]),
          Cls [Ch 45, Ch 24180], Rep 1 (Some 2) (Cls [ClsDigit]), Cls [Ch 45, Ch 26376],
          Rep 1 (Some 2) (Cls [ClsDigit]), Rep 0 (Some 1) (Cls [Ch 26085, Ch 22825])])],
        fd_description = [29983, 25928, 26085, 26399]\<rparr>])]"

text \<open>The loop of \<open>_extract_fields_by_type\<close> over the field definitions of the type.\<close>

fun extract_loop :: "runtime \<Rightarrow> ustring \<Rightarrow> field_def list \<Rightarrow> ExtractedField list" where
  "extract_loop U content [] = []"
| "extract_loop U content (field_def # rest) =
     (case findall U True (fd_pattern field_def) content of
        [] \<Rightarrow> extract_loop U content rest
      | m # _ \<Rightarrow>
          (let field_value = (case m of MStr v \<Rightarrow> v | MTuple v vs \<Rightarrow> last (v # vs))
           in \<lparr>field_name = fd_name field_def, field_value = strip U field_value,
                confidence = 9 / 10, page_number = None, position = None\<rparr>
              # extract_loop U content rest))"

definition extract_fields_by_type :: "runtime \<Rightarrow> ustring \<Rightarrow> DocumentType \<Rightarrow> ExtractedField list" where
  "extract_fields_by_type U content doc_type =
     (case map_of field_definitions doc_type of
        None \<Rightarrow> []
      | Some fields_to_extract \<Rightarrow> extract_loop U content fields_to_extract)"

definition calculate_extraction_accuracy :: "ExtractedField list \<Rightarrow> rat" where
  "calculate_extraction_accuracy flds =
     (if flds = [] then 0
      else let total_confidence = sum_list (map ExtractedField.confidence flds);
               avg_confidence = total_confidence / of_nat (length flds);
               field_ratio = min (of_nat (length flds) / 5) 1
           in avg_confidence * (7 / 10) + field_ratio * (3 / 10))"

text \<open>
  \<open>extract_from_document\<close> draws a fresh uuid and reads the file; both are inputs here.
\<close>

definition extract_from_document :: "runtime \<Rightarrow> ustring \<Rightarrow> ustring \<Rightarrow> DocumentType \<Rightarrow> ExtractionResult" where
  "extract_from_document U doc_id content document_type =
     (let flds = extract_fields_by_type U content document_type
      in \<lparr>document_id = doc_id, extracted_fields = flds,
           extraction_accuracy = calculate_extraction_accuracy flds\<rparr>)"

section \<open>Liability evaluator (services/liability_evaluator.py)\<close>

datatype limit_value = Num rat | Txt ustring

record PolicyTerms =
  name :: ustring
  coverage :: "ustring list"
  exclusions :: "ustring list"
  limits :: "(ustring \<times> limit_value) list"
  waiting_period :: int

definition health_insurance_basic :: PolicyTerms where
  "health_insurance_basic =
     \<lparr>name = [22522, 26412, 21307, 30103, 20445, 38505],
      coverage = [[20303, 38498, 36153, 29992], [25163, 26415, 36153, 29992],
                  [33647, 21697, 36153, 29992, 40, 21307, 20445, 30446, 24405, 20869, 41]],
      exclusions = [[26082, 24448, 30151], [32654, 23481, 25163, 26415],
                    [29273, 31185, 27835, 30103], [29983, 32946, 30456, 20851]],
      limits = [([24180, 24230, 25253, 38144, 19978, 38480], Num 100000),
                ([21333, 27425, 20303, 38498, 19978, 38480], Num 30000),
                ([33258, 20184, 27604, 20363], Num (1 / 10))],
      waiting_period = 30\<rparr>"

definition accident_insurance :: PolicyTerms where
  "accident_insurance =
     \<lparr>name = [24847, 22806, 20260, 23475, 20445, 38505],
      coverage = [[24847, 22806, 36523, 25925], [24847, 22806, 20260, 27531],
                  [24847, 22806, 21307, 30103, 36153, 29992]],
      exclusions = [[33258, 26432], [37202, 39550], [25112, 20105],
                    [39640, 39118, 38505, 36816, 21160]],
      limits = [([24847, 22806, 36523, 25925], Num 500000),
                ([24847, 22806, 21307, 30103], Num 50000),
                ([20260, 27531, 32473, 20184, 27604, 20363], Txt [25353, 20260, 27531, 31561, 32423])],
      waiting_period = 0\<rparr>"

definition policy_terms_db :: "(ustring \<times> PolicyTerms) list" where
  "policy_terms_db =
     [(u ''health_insurance_basic'', health_insurance_basic),
      (u ''accident_insurance'', accident_insurance)]"

text \<open>The keys \<open>limits\<close> is read at: the annual cap and the self-pay ratio.\<close>

definition annual_limit_key :: ustring where
  "annual_limit_key = [24180, 24230, 25253, 38144, 19978, 38480]"

definition self_pay_key :: ustring where
  "self_pay_key = [33258, 20184, 27604, 20363]"

text \<open>
  The merged flds: a dict from the field name to \<open>{'value': ..., 'confidence': ...}\<close>.
\<close>

record merged_entry =
  entry_value :: ustring
  entry_confidence :: rat

type_synonym merged_fields = "ustring \<rightharpoonup> merged_entry"

text \<open>\<open>_get_claim_data\<close> is a stub in the source: no extraction or classification results.\<close>

definition get_claim_data :: "ustring \<Rightarrow> ExtractionResult list \<times> ClassificationResult list" where
  "get_claim_data claim_id = ([], [])"

text \<open>The assignment in the inner loop of \<open>_merge_extraction_results\<close>.\<close>

definition merge_field :: "merged_fields \<Rightarrow> ExtractedField \<Rightarrow> merged_fields" where
  "merge_field merged field =
     merged(field_name field \<mapsto>
       \<lparr>entry_value = field_value field,
        entry_confidence = ExtractedField.confidence field\<rparr>)"

definition merge_extraction_results :: "ExtractionResult list \<Rightarrow> merged_fields" where
  "merge_extraction_results extraction_results =
     foldl (\<lambda>merged result. foldl merge_field merged (extracted_fields result))
           Map.empty extraction_results"

text \<open>
  \<open>_parse_policy_terms\<close>: both branches of the test on \<open>contract_terms\<close> read the same
  key of \<open>policy_terms_db\<close>.
\<close>

definition parse_policy_terms :: "ustring option \<Rightarrow> py_error + PolicyTerms" where
  "parse_policy_terms contract_terms =
     (if contract_terms \<noteq> None \<and> contract_terms \<noteq> Some [] then
        (case map_of policy_terms_db (u ''health_insurance_basic'') of
           None \<Rightarrow> Inl KeyError | Some p \<Rightarrow> Inr p)
      else
        (case map_of policy_terms_db (u ''health_insurance_basic'') of
           None \<Rightarrow> Inl KeyError | Some p \<Rightarrow> Inr p))"

text \<open>\<open>fields.get(key, {}).get("value", default)\<close>.\<close>

definition get_value :: "merged_fields \<Rightarrow> ustring \<Rightarrow> ustring \<Rightarrow> ustring" where
  "get_value flds key dflt =
     (case flds key of None \<Rightarrow> dflt | Some entry \<Rightarrow> entry_value entry)"

text \<open>
  \<open>_check_coverage\<close>.  The waiting-period test of the source has an empty body, and the
  list of covered items is read and not used.
\<close>

definition check_coverage :: "merged_fields \<Rightarrow> PolicyTerms \<Rightarrow> bool \<times> ustring list" where
  "check_coverage flds policy_info =
     (let diagnosis = get_value flds (u ''diagnosis'') []
      in if diagnosis \<noteq> [] then (True, [])
         else (False, [[32570, 23569, 35786, 26029, 20449, 24687, 65292, 26080, 27861, 30830,
                        35748, 26159, 21542, 22312, 20445, 38556, 33539, 22260, 20869]]))"

definition check_exclusions :: "runtime \<Rightarrow> merged_fields \<Rightarrow> PolicyTerms \<Rightarrow> ustring list" where
  "check_exclusions U flds policy_info =
     (let diagnosis = str_lower U (get_value flds (u ''diagnosis'') []);
          treatment = str_lower U (get_value flds (u ''treatment_details'') [])
      in filter (\<lambda>exclusion. contains diagnosis (str_lower U exclusion)
                            \<or> contains treatment (str_lower U exclusion))
                (exclusions policy_info))"

subsection \<open>Dates: \<open>datetime.strptime(s, "%Y-%m-%d")\<close> and the age in years\<close>

definition is_leap :: "int \<Rightarrow> bool" where
  "is_leap y = (y mod 4 = 0 \<and> (y mod 100 \<noteq> 0 \<or> y mod 400 = 0))"

definition days_in_month :: "int \<Rightarrow> int \<Rightarrow> int" where
  "days_in_month y m =
     (if m = 2 then (if is_leap y then 29 else 28)
      else if m = 4 \<or> m = 6 \<or> m = 9 \<or> m = 11 then 30 else 31)"

text \<open>\<open>date(y, m, d).toordinal()\<close>: the days since the day before 0001-01-01.\<close>

definition ymd2ord :: "int \<Rightarrow> int \<Rightarrow> int \<Rightarrow> int" where
  "ymd2ord y m d =
     (y - 1) * 365 + (y - 1) div 4 - (y - 1) div 100 + (y - 1) div 400
     + sum_list (map (days_in_month y) [1..m - 1]) + d"

text \<open>
  The pattern \<open>strptime\<close> builds for \<open>%Y-%m-%d\<close>:
  \<open>(\d\d\d\d)-(1[0-2]|0[1-9]|[1-9])-(3[0-1]|[1-2]\d|0[1-9]|[1-9]| [1-9])\<close>.
\<close>

definition date_pattern :: regex where
  "date_pattern =
     seq [Grp 1 (seq [Cls [ClsDigit], Cls [ClsDigit], Cls [ClsDigit], Cls [ClsDigit]]), Lit 45,
          Grp 2 (Alt (seq [Lit 49, Cls [Rng 48 50]])
                (Alt (seq [Lit 48, Cls [Rng 49 57]]) (Cls [Rng 49 57]))),
          Lit 45,
          Grp 3 (Alt (seq [Lit 51, Cls [Rng 48 49]])
                (Alt (seq [Cls [Rng 49 50], Cls [ClsDigit]])
                (Alt (seq [Lit 48, Cls [Rng 49 57]])
                (Alt (Cls [Rng 49 57]) (seq [Lit 32, Cls [Rng 49 57]])))))]"

text \<open>
  \<open>strptime\<close> matches the pattern at the start of the string and rejects a string
  that the match leaves unread, or a date that does not exist; every failure is a
  \<open>ValueError\<close> (\<open>None\<close> here).  The result is the ordinal of the date.
\<close>

definition strptime_ymd :: "runtime \<Rightarrow> ustring \<Rightarrow> int option" where
  "strptime_ymd U s =
     (case rmatch U True date_pattern (s, []) of
        [] \<Rightarrow> None
      | st # _ \<Rightarrow>
          if fst st \<noteq> [] then None
          else (let y = int (digits_value U (group_text (snd st) 1));
                    m = int (digits_value U (group_text (snd st) 2));
                    d = int (digits_value U (group_text (snd st) 3))
                in if y < 1 \<or> m < 1 \<or> 12 < m \<or> d < 1 \<or> days_in_month y m < d then None
                   else Some (ymd2ord y m d)))"

subsection \<open>The risk rules\<close>

text \<open>
  The age of \<open>_check_gender_age_inconsistency\<close>: \<open>Inl r\<close> when the function leaves with
  \<open>r\<close> before it has an age (it returns False, or \<open>int\<close> raises), \<open>Inr age\<close> otherwise.
  \<open>(datetime.now() - birth_dt).days\<close> is the difference of the ordinals of the two
  dates, since \<open>birth_dt\<close> is a midnight; \<open>now\<close> is the ordinal of the current day.
\<close>

definition derive_age :: "runtime \<Rightarrow> int \<Rightarrow> merged_fields \<Rightarrow> (py_error + bool) + int" where
  "derive_age U now flds =
     (let age_str = get_value flds (u ''age'') []
      in if \<not> isdigit U age_str then
           (let birth_date = get_value flds (u ''birth_date'') []
            in if birth_date \<noteq> [] then
                 (case strptime_ymd U (replace_char 26085 []
                          (replace_char 26376 [45] (replace_char 24180 [45] birth_date))) of
                    None \<Rightarrow> Inl (Inr False)
                  | Some birth_ord \<Rightarrow> Inr ((now - birth_ord) div 365))
               else Inl (Inr False))
         else (case py_int U age_str of Inl e \<Rightarrow> Inl (Inl e) | Inr age \<Rightarrow> Inr age))"

definition check_gender_age_inconsistency ::
    "runtime \<Rightarrow> int \<Rightarrow> merged_fields \<Rightarrow> py_error + bool" where
  "check_gender_age_inconsistency U now flds =
     (let gender = str_lower U (get_value flds (u ''gender'') [])
      in case derive_age U now flds of
           Inl r \<Rightarrow> r
         | Inr age \<Rightarrow>
             if contains gender [22899] \<and> age < 18 then
               (let diagnosis = str_lower U (get_value flds (u ''diagnosis'') [])
                in Inr (list_ex (\<lambda>keyword. contains diagnosis keyword)
                                [[23381], [20135], [22919, 31185]]))
             else Inr False)"

definition check_pre_existing_conditions :: "runtime \<Rightarrow> merged_fields \<Rightarrow> py_error + bool" where
  "check_pre_existing_conditions U flds =
     (let medical_history = str_lower U (get_value flds (u ''medical_history'') []);
          diagnosis = str_lower U (get_value flds (u ''diagnosis'') [])
      in if medical_history \<noteq> [] \<and> diagnosis \<noteq> [] then Inr (contains medical_history diagnosis)
         else Inr False)"

text \<open>The pattern \<open>\d+(?:\.\d+)?\<close>, and the text of an element of \<open>findall\<close>.\<close>

definition number_pattern :: regex where
  "number_pattern =
     seq [Rep 1 None (Cls [ClsDigit]),
          Rep 0 (Some 1) (seq [Lit 46, Rep 1 None (Cls [ClsDigit])])]"

definition item_text :: "match_item \<Rightarrow> ustring" where
  "item_text m = (case m of MStr v \<Rightarrow> v | MTuple v vs \<Rightarrow> v)"

text \<open>
  \<open>re.findall(r'\d+(?:\.\d+)?', invoice_amount_str.replace(',', ''))\<close>, which the source
  writes twice: in \<open>_check_abnormal_cost\<close> and in \<open>_calculate_recommended_payout\<close>.
\<close>

definition invoice_numbers :: "runtime \<Rightarrow> merged_fields \<Rightarrow> match_item list" where
  "invoice_numbers U flds =
     (let invoice_amount_str = get_value flds (u ''invoice_amount'') (u ''0'')
      in findall U False number_pattern (replace_char 44 [] invoice_amount_str))"

definition check_abnormal_cost :: "runtime \<Rightarrow> merged_fields \<Rightarrow> py_error + bool" where
  "check_abnormal_cost U flds =
     (case invoice_numbers U flds of
        [] \<Rightarrow> Inr False
      | n # _ \<Rightarrow> Inr (20000 < py_float U (item_text n)))"

definition check_medication_diagnosis_match :: "runtime \<Rightarrow> merged_fields \<Rightarrow> py_error + bool" where
  "check_medication_diagnosis_match U flds =
     (let diagnosis = str_lower U (get_value flds (u ''diagnosis'') []);
          medications = str_lower U (get_value flds (u ''medications'') [])
      in Inr (contains medications [25239, 29983, 32032]
              \<and> \<not> contains diagnosis [24863, 26579] \<and> \<not> contains diagnosis [28814, 30151]))"

record risk_rule =
  rule_name :: ustring
  rule_condition :: "runtime \<Rightarrow> int \<Rightarrow> merged_fields \<Rightarrow> py_error + bool"
  rule_severity :: ustring
  rule_description :: ustring

record risk_factor =
  rf_name :: ustring
  rf_severity :: ustring
  rf_description :: ustring

definition risk_rules :: "risk_rule list" where
  "risk_rules =
     [\<lparr>rule_name = [24615, 21035, 24180, 40836, 19981, 31526],
       rule_condition = check_gender_age_inconsistency,
       rule_severity = u ''high'',
       rule_description = [34987, 20445, 38505, 20154, 24615, 21035, 19982, 24180, 40836,
                           19981, 21305, 37197]\<rparr>,
      \<lparr>rule_name = [26082, 24448, 30151, 26816, 27979],
       rule_condition = (\<lambda>U now. check_pre_existing_conditions U),
       rule_severity = u ''high'',
       rule_description = [30097, 20284, 26082, 24448, 30151]\<rparr>,
      \<lparr>rule_name = [36153, 29992, 24322, 24120, 39640],
       rule_condition = (\<lambda>U now. check_abnormal_cost U),
       rule_severity = u ''medium'',
       rule_description = [36153, 29992, 36229, 20986, 21512, 29702, 33539, 22260]\<rparr>,
      \<lparr>rule_name = [35786, 26029, 19982, 29992, 33647, 19981, 31526],
       rule_condition = (\<lambda>U now. check_medication_diagnosis_match U),
       rule_severity = u ''high'',
       rule_description = [33647, 29289, 19982, 35786, 26029, 19981, 21305, 37197]\<rparr>]"

text \<open>The loop of \<open>_apply_risk_rules\<close>; an exception of a condition ends it.\<close>

fun apply_rules ::
    "runtime \<Rightarrow> int \<Rightarrow> merged_fields \<Rightarrow> risk_rule list \<Rightarrow> py_error + risk_factor list" where
  "apply_rules U now flds [] = Inr []"
| "apply_rules U now flds (rule # rules) =
     (case rule_condition rule U now flds of
        Inl e \<Rightarrow> Inl e
      | Inr fired \<Rightarrow>
          (case apply_rules U now flds rules of
             Inl e \<Rightarrow> Inl e
           | Inr rest \<Rightarrow>
               Inr (if fired
                    then \<lparr>rf_name = rule_name rule, rf_severity = rule_severity rule,
                          rf_description = rule_description rule\<rparr> # rest
                    else rest)))"

definition apply_risk_rules ::
    "runtime \<Rightarrow> int \<Rightarrow> merged_fields \<Rightarrow> py_error + risk_factor list" where
  "apply_risk_rules U now flds = apply_rules U now flds risk_rules"

subsection \<open>Payout, confidence, reasons\<close>

text \<open>
  \<open>limits.get(key, default)\<close> as a number: \<open>None\<close> when the key is absent, a
  \<open>TypeError\<close> of the arithmetic when the limit is a string.
\<close>

definition limit_number :: "PolicyTerms \<Rightarrow> ustring \<Rightarrow> py_error + rat option" where
  "limit_number policy_info key =
     (case map_of (limits policy_info) key of
        None \<Rightarrow> Inr None
      | Some (Num x) \<Rightarrow> Inr (Some x)
      | Some (Txt t) \<Rightarrow> Inl TypeError)"

definition invoice_amount :: "runtime \<Rightarrow> merged_fields \<Rightarrow> rat" where
  "invoice_amount U flds =
     (case invoice_numbers U flds of [] \<Rightarrow> 0 | n # _ \<Rightarrow> py_float U (item_text n))"

definition calculate_recommended_payout ::
    "runtime \<Rightarrow> merged_fields \<Rightarrow> PolicyTerms \<Rightarrow> bool \<Rightarrow> ustring list \<Rightarrow> py_error + rat" where
  "calculate_recommended_payout U flds policy_info covered excl_factors =
     (if \<not> covered \<or> excl_factors \<noteq> [] then Inr 0
      else
        (case limit_number policy_info self_pay_key of
           Inl e \<Rightarrow> Inl e
         | Inr ratio \<Rightarrow>
             (let self_pay_ratio = (case ratio of None \<Rightarrow> 0 | Some q \<Rightarrow> q);
                  payout = invoice_amount U flds * (1 - self_pay_ratio)
              in case limit_number policy_info annual_limit_key of
                   Inl e \<Rightarrow> Inl e
                 | Inr None \<Rightarrow> Inr (py_round2 payout)
                 | Inr (Some max_coverage) \<Rightarrow> Inr (py_round2 (min payout max_coverage)))))"

definition calculate_evaluation_confidence :: "bool \<Rightarrow> int \<Rightarrow> int \<Rightarrow> rat" where
  "calculate_evaluation_confidence covered exclusion_count risk_count =
     (let base_confidence = 9 / 10;
          base_confidence =
            (if \<not> covered then base_confidence - 3 / 10 else base_confidence);
          base_confidence =
            (if 0 < exclusion_count then base_confidence - 2 / 10 * of_int exclusion_count
             else base_confidence);
          base_confidence =
            (if 0 < risk_count then base_confidence - 1 / 10 * of_int risk_count
             else base_confidence)
      in max base_confidence (1 / 10))"

definition generate_evaluation_reasons ::
    "bool \<Rightarrow> ustring list \<Rightarrow> ustring list \<Rightarrow> risk_factor list \<Rightarrow> ustring list" where
  "generate_evaluation_reasons covered coverage_issues excl_factors risk_factors =
     (if covered
      then [[26696, 20214, 22312, 20445, 38505, 20445, 38556, 33539, 22260, 20869]]
      else [26696, 20214, 21487, 33021, 19981, 22312, 20445, 38556, 33539, 22260, 20869]
           # coverage_issues)
     @ (if excl_factors \<noteq> []
        then [[21457, 29616] @ str_of_nat (length excl_factors)
              @ [20010, 20813, 36131, 22240, 32032, 58, 32]
              @ join [44, 32] excl_factors]
        else [])
     @ (if risk_factors \<noteq> []
        then [[26816, 27979, 21040] @ str_of_nat (length risk_factors)
              @ [20010, 39118, 38505, 28857, 58, 32]
              @ join [44, 32] (map rf_name risk_factors)]
        else [])
     @ (if coverage_issues = [] \<and> excl_factors = [] \<and> risk_factors = []
        then [[26410, 21457, 29616, 26126, 26174, 39118, 38505, 25110, 20813, 36131, 24773,
               20917]]
        else [])"

subsection \<open>The evaluation\<close>

text \<open>
  \<open>evaluate\<close> is the body of \<open>evaluate_claim\<close> from the coverage check on: the
  evaluation of merged flds against policy terms.  \<open>coverage_limit\<close> is declared
  \<open>Optional[float]\<close>, and a limit that is a string does not validate.
\<close>

definition evaluate ::
    "runtime \<Rightarrow> int \<Rightarrow> merged_fields \<Rightarrow> PolicyTerms \<Rightarrow> py_error + LiabilityEvaluation" where
  "evaluate U now all_extracted_fields policy_info =
     (let (covered, coverage_issues) = check_coverage all_extracted_fields policy_info;
          excl_factors = check_exclusions U all_extracted_fields policy_info
      in case apply_risk_rules U now all_extracted_fields of
           Inl e \<Rightarrow> Inl e
         | Inr risk_factors \<Rightarrow>
             (case calculate_recommended_payout U all_extracted_fields policy_info
                     covered excl_factors of
                Inl e \<Rightarrow> Inl e
              | Inr payout \<Rightarrow>
                  (let conf = calculate_evaluation_confidence covered
                                (int (length excl_factors)) (int (length risk_factors));
                       reasons = generate_evaluation_reasons covered coverage_issues
                                   excl_factors risk_factors
                   in case map_of (limits policy_info) annual_limit_key of
                        Some (Txt t) \<Rightarrow> Inl ValidationError
                      | limit \<Rightarrow>
                          Inr \<lparr>coverage_applicable = covered,
                               exclusion_factors = excl_factors,
                               coverage_limit = (case limit of Some (Num x) \<Rightarrow> Some x | _ \<Rightarrow> None),
                               recommended_payout = payout,
                               evaluation_reasons = reasons,
                               confidence = conf\<rparr>)))"

definition evaluate_results ::
    "runtime \<Rightarrow> int \<Rightarrow> ExtractionResult list \<Rightarrow> ustring option
       \<Rightarrow> py_error + LiabilityEvaluation" where
  "evaluate_results U now extraction_results contract_terms =
     (let all_extracted_fields = merge_extraction_results extraction_results
      in case parse_policy_terms contract_terms of
           Inl e \<Rightarrow> Inl e
         | Inr policy_info \<Rightarrow> evaluate U now all_extracted_fields policy_info)"

definition evaluate_claim ::
    "runtime \<Rightarrow> int \<Rightarrow> ustring \<Rightarrow> ustring option \<Rightarrow> py_error + LiabilityEvaluation" where
  "evaluate_claim U now claim_id contract_terms =
     evaluate_results U now (fst (get_claim_data claim_id)) contract_terms"


section \<open>The extraction as the specification words it\<close>

text \<open>
  \<open>re.search\<close>: the first match of the pattern in the text, as the input it starts on
  and the state it ends in.
\<close>

fun search :: "runtime \<Rightarrow> bool \<Rightarrow> regex \<Rightarrow> ustring \<Rightarrow> (ustring \<times> mstate) option" where
  "search U icase r [] =
     (case rmatch U icase r ([], []) of [] \<Rightarrow> None | st # _ \<Rightarrow> Some ([], st))"
| "search U icase r (x # xs) =
     (case rmatch U icase r (x # xs, []) of
        [] \<Rightarrow> search U icase r xs
      | st # _ \<Rightarrow> Some (x # xs, st))"

text \<open>
  The value of a field, from the first match.  As the specification has it: the last
  group when the pattern has several groups, the whole match otherwise.  As the source
  has it: the whole match only when the pattern has no group, the last group otherwise.
\<close>

definition claimed_value :: "regex \<Rightarrow> ustring \<Rightarrow> mstate \<Rightarrow> ustring" where
  "claimed_value r s st =
     (if 2 \<le> ngroups r then group_text (snd st) (ngroups r) else whole_match s st)"

definition selected_value :: "regex \<Rightarrow> ustring \<Rightarrow> mstate \<Rightarrow> ustring" where
  "selected_value r s st =
     (if ngroups r = 0 then whole_match s st else group_text (snd st) (ngroups r))"

text \<open>
  The extraction of the specification for a choice of the value: for each field
  definition in order, the first match of its pattern, case-insensitively; no match, no
  field; the value trimmed; the confidence 0.9.
\<close>

definition extract_by ::
    "(regex \<Rightarrow> ustring \<Rightarrow> mstate \<Rightarrow> ustring) \<Rightarrow> runtime \<Rightarrow> ustring \<Rightarrow> field_def list
       \<Rightarrow> ExtractedField list" where
  "extract_by sel U content defs =
     List.map_filter
       (\<lambda>fd. case search U True (fd_pattern fd) content of
               None \<Rightarrow> None
             | Some (s, st) \<Rightarrow>
                 Some \<lparr>field_name = fd_name fd,
                       field_value = strip U (sel (fd_pattern fd) s st),
                       confidence = 9 / 10, page_number = None, position = None\<rparr>)
       defs"

text \<open>The field definitions of a document type; every type has its list.\<close>

definition fields_for :: "DocumentType \<Rightarrow> field_def list" where
  "fields_for doc_type =
     (case map_of field_definitions doc_type of None \<Rightarrow> [] | Some defs \<Rightarrow> defs)"

section \<open>Sample inputs\<close>



text \<open>
  A female insured born on 2010-01-01 with an obstetric diagnosis, without and with an
  explicit age of 10.
\<close>

definition minor_fields :: merged_fields where
  "minor_fields =
     [u ''gender'' \<mapsto> \<lparr>entry_value = [22899], entry_confidence = 9 / 10\<rparr>,
      u ''birth_date'' \<mapsto> \<lparr>entry_value = u ''2010-01-01'', entry_confidence = 9 / 10\<rparr>,
      u ''diagnosis'' \<mapsto> \<lparr>entry_value = [23381], entry_confidence = 9 / 10\<rparr>]"

definition minor_fields_with_age :: merged_fields where
  "minor_fields_with_age =
     minor_fields(u ''age'' \<mapsto> \<lparr>entry_value = u ''10'', entry_confidence = 9 / 10\<rparr>)"

section \<open>Properties of the classifier\<close>

lemma startswith_iff: "startswith s k \<longleftrightarrow> (\<exists>b. s = k @ b)"
  by (induction s k rule: startswith.induct) auto

lemma contains_iff: "contains s k \<longleftrightarrow> (\<exists>a b. s = a @ k @ b)"
proof (induction s)
  case Nil
  then show ?case by auto
next
  case (Cons x xs)
  show ?case
  proof
    assume "contains (x # xs) k"
    then consider "startswith (x # xs) k" | "contains xs k" by auto
    then show "\<exists>a b. x # xs = a @ k @ b"
    proof cases
      case 1
      then obtain b where "x # xs = k @ b" by (auto simp: startswith_iff)
      then have "x # xs = [] @ k @ b" by simp
      then show ?thesis by blast
    next
      case 2
      then obtain a b where "xs = a @ k @ b" using Cons.IH by auto
      then have "x # xs = (x # a) @ k @ b" by simp
      then show ?thesis by blast
    qed
  next
    assume "\<exists>a b. x # xs = a @ k @ b"
    then obtain a b where ab: "x # xs = a @ k @ b" by auto
    show "contains (x # xs) k"
    proof (cases a)
      case Nil
      then have "startswith (x # xs) k" using ab by (auto simp: startswith_iff)
      then show ?thesis by simp
    next
      case (Cons y ys)
      then have "xs = ys @ k @ b" using ab by simp
      then have "contains xs k" using Cons.IH by blast
      then show ?thesis by simp
    qed
  qed
qed

lemma contains_append: "contains s k \<Longrightarrow> contains (s @ t) k"
  by (metis append.assoc contains_iff)

lemma foldl_count:
  "foldl (\<lambda>score keyword. if P keyword then score + 1 else score) (a::int) ks
     = a + int (length (filter P ks))"
  by (induction ks arbitrary: a) auto

lemma keyword_score_count:
  "keyword_score U cl ks = int (length (filter (\<lambda>k. contains cl (str_lower U k)) ks))"
  by (simp add: keyword_score_def foldl_count)

lemma filter_length_mono:
  "(\<And>x. x \<in> set xs \<Longrightarrow> P x \<Longrightarrow> Q x) \<Longrightarrow> length (filter P xs) \<le> length (filter Q xs)"
  by (induction xs) auto

lemma keyword_score_mono:
  "keyword_score U cl ks \<le> keyword_score U (cl @ t) ks"
  unfolding keyword_score_count
  by (simp add: filter_length_mono contains_append)

lemma max_by_first_spec:
  "\<exists>ys zs. b # xs = ys @ max_by_first b xs # zs
      \<and> (\<forall>y\<in>set ys. snd y < snd (max_by_first b xs))
      \<and> (\<forall>z\<in>set zs. snd z \<le> snd (max_by_first b xs))"
proof (induction xs arbitrary: b)
  case Nil
  have "[b] = [] @ max_by_first b [] # []" by simp
  then show ?case by force
next
  case (Cons x xs)
  let ?b' = "if snd b < snd x then x else b"
  let ?r = "max_by_first ?b' xs"
  from Cons.IH[of ?b'] obtain ys zs where
    eq: "?b' # xs = ys @ ?r # zs" and lt: "\<forall>y\<in>set ys. snd y < snd ?r"
    and le: "\<forall>z\<in>set zs. snd z \<le> snd ?r" by blast
  have r: "max_by_first b (x # xs) = ?r" by simp
  show ?case
  proof (cases ys)
    case Nil
    then have rb: "?r = ?b'" and zs: "zs = xs" using eq by auto
    show ?thesis
    proof (cases "snd b < snd x")
      case True
      then have "b # x # xs = [b] @ ?r # zs" using rb zs by simp
      moreover have "\<forall>y\<in>set [b]. snd y < snd ?r" using True rb by simp
      ultimately show ?thesis using le unfolding r by blast
    next
      case False
      then have "b # x # xs = [] @ ?r # (x # zs)" using rb zs by simp
      moreover have "\<forall>z\<in>set (x # zs). snd z \<le> snd ?r" using False rb le by auto
      moreover have "\<forall>y\<in>set []. snd y < snd ?r" by simp
      ultimately show ?thesis unfolding r by blast
    qed
  next
    case (Cons y ys')
    then have yb: "y = ?b'" and xs: "xs = ys' @ ?r # zs" using eq by auto
    have blt: "snd ?b' < snd ?r" using lt Cons yb by simp
    show ?thesis
    proof (cases "snd b < snd x")
      case True
      then have "b # x # xs = (b # x # ys') @ ?r # zs" using xs by simp
      moreover have "\<forall>y\<in>set (b # x # ys'). snd y < snd ?r"
        using True blt lt Cons by auto
      ultimately show ?thesis using le unfolding r by blast
    next
      case False
      then have "b # x # xs = (b # x # ys') @ ?r # zs" using xs by simp
      moreover have "\<forall>y\<in>set (b # x # ys'). snd y < snd ?r"
        using False blt lt Cons by auto
      ultimately show ?thesis using le unfolding r by blast
    qed
  qed
qed

lemma keyword_score_nonneg: "0 \<le> keyword_score U cl ks"
  by (simp add: keyword_score_count)

lemma max_by_first_mem: "max_by_first b xs \<in> set (b # xs)"
  by (induction xs arbitrary: b) auto

lemma total_keywords_val: "total_keywords = 44"
  by (simp add: total_keywords_def keyword_mapping_def)

lemma map_fst_scores: "map fst (scores_of U content) = supported_types"
  by (simp add: scores_of_def keyword_mapping_def supported_types_def)

lemma scores_all_zero:
  assumes "\<forall>(t, kws) \<in> set keyword_mapping. \<forall>k \<in> set kws.
             \<not> contains (str_lower U content) (str_lower U k)"
  shows "\<forall>p \<in> set (scores_of U content). snd p = 0"
  using assms by (auto simp: scores_of_def keyword_score_count filter_empty_conv)

text \<open>
  Claim C6.  When no configured keyword of any document type occurs in the text as a
  case-insensitive substring, classification returns exactly \<open>medical_record\<close> with
  confidence 0.1 and the alternatives \<open>accident_report\<close>, \<open>invoice\<close>,
  \<open>identity_card\<close>.
\<close>

theorem classify_no_keyword_default:
  assumes "\<forall>(t, kws) \<in> set keyword_mapping. \<forall>k \<in> set kws.
             \<not> contains (str_lower U content) (str_lower U k)"
  shows "classify_document U doc_id content =
           Some \<lparr>ClassificationResult.document_id = doc_id, predicted_type = MEDICAL_RECORD,
                 ClassificationResult.confidence = 1 / 10,
                 alternative_types = Some [ACCIDENT_REPORT, INVOICE, IDENTITY_CARD]\<rparr>"
proof -
  have z: "\<forall>p \<in> set (scores_of U content). snd p = 0"
    using assms by (rule scores_all_zero)
  obtain x xs where sc: "scores_of U content = x # xs"
    by (auto simp: scores_of_def keyword_mapping_def)
  have "max_by_first x xs \<in> set (scores_of U content)"
    using max_by_first_mem[of x xs] sc by simp
  then have "snd (max_by_first x xs) = 0" using z by blast
  then obtain p where "py_max_key (scores_of U content) = Some (p, 0)"
    by (cases "max_by_first x xs") (auto simp: py_max_key_def sc)
  then have "classify_content U content = Some (MEDICAL_RECORD, 1 / 10)"
    by (simp add: classify_content_def)
  then show ?thesis
    by (simp add: classify_document_def get_alternative_types_def supported_types_def)
qed

theorem classify_no_keyword_default_witness:
  "classify_document basic_runtime [100, 49] [104, 101, 108, 108, 111] =
           Some \<lparr>ClassificationResult.document_id = [100, 49], predicted_type = MEDICAL_RECORD,
                 ClassificationResult.confidence = 1 / 10,
                 alternative_types = Some [ACCIDENT_REPORT, INVOICE, IDENTITY_CARD]\<rparr>"
  by (rule classify_no_keyword_default)
     (simp add: keyword_mapping_def basic_runtime_def basic_lower_def)

lemma scores_sorted:
  "sorted_wrt (\<lambda>x y. enum_index (fst x) < enum_index (fst y)) (scores_of U content)"
  by (simp add: scores_of_def keyword_mapping_def)

lemma scores_distinct: "distinct (map fst (scores_of U content))"
  by (simp add: map_fst_scores supported_types_def)

lemma scores_nonneg: "(t, s) \<in> set (scores_of U content) \<Longrightarrow> 0 \<le> s"
  by (auto simp: scores_of_def keyword_score_nonneg)

lemma scores_medical: "\<exists>s. (MEDICAL_RECORD, s) \<in> set (scores_of U content)"
  by (simp add: scores_of_def keyword_mapping_def)

lemma type_score_iff:
  "type_score U content t = Some s \<longleftrightarrow> (t, s) \<in> set (scores_of U content)"
  by (simp add: type_score_def scores_distinct)

text \<open>
  Claim C8.  Classification always returns; the predicted type has the maximum
  keyword-presence score, and every type with the same score comes at or after it in
  the enumeration order: ties go to the first type.
\<close>

theorem classify_first_maximum:
  "\<exists>p c m. classify_content U content = Some (p, c) \<and> type_score U content p = Some m
     \<and> (\<forall>t s. type_score U content t = Some s \<longrightarrow>
            s \<le> m \<and> (s = m \<longrightarrow> enum_index p \<le> enum_index t))"
proof -
  let ?L = "scores_of U content"
  obtain x xs where sc: "?L = x # xs"
    by (auto simp: scores_of_def keyword_mapping_def)
  define r where "r = max_by_first x xs"
  obtain ys zs where eq: "?L = ys @ r # zs"
    and lt: "\<forall>y\<in>set ys. snd y < snd r" and le: "\<forall>z\<in>set zs. snd z \<le> snd r"
    using max_by_first_spec[of x xs] sc r_def by auto
  have pm: "py_max_key ?L = Some (fst r, snd r)"
    by (simp add: py_max_key_def sc r_def)
  have srt: "sorted_wrt (\<lambda>x y. enum_index (fst x) < enum_index (fst y)) (ys @ r # zs)"
    using scores_sorted[of U content] eq by simp
  have after: "\<forall>z\<in>set zs. enum_index (fst r) < enum_index (fst z)"
    using srt by (simp add: sorted_wrt_append)
  have rin: "(fst r, snd r) \<in> set ?L" using eq by simp
  have bound: "s \<le> snd r \<and> (s = snd r \<longrightarrow> enum_index (fst r) \<le> enum_index t)"
    if "(t, s) \<in> set ?L" for t s
  proof -
    from that eq consider "(t, s) \<in> set ys" | "(t, s) = r" | "(t, s) \<in> set zs" by auto
    then show ?thesis
    proof cases
      case 1 then show ?thesis using lt by fastforce
    next
      case 2 then show ?thesis by auto
    next
      case 3 then show ?thesis using le after by fastforce
    qed
  qed
  show ?thesis
  proof (cases "snd r = 0")
    case True
    then have cc: "classify_content U content = Some (MEDICAL_RECORD, 1 / 10)"
      by (simp add: classify_content_def pm case_prod_beta)
    obtain s0 where s0: "(MEDICAL_RECORD, s0) \<in> set ?L" using scores_medical by blast
    have all0: "s = 0" if "(t, s) \<in> set ?L" for t s
      using bound[OF that] scores_nonneg[OF that] True by simp
    have "type_score U content MEDICAL_RECORD = Some 0"
      using s0 all0[OF s0] by (simp add: type_score_iff)
    moreover have "\<forall>t s. type_score U content t = Some s \<longrightarrow>
            s \<le> 0 \<and> (s = 0 \<longrightarrow> enum_index MEDICAL_RECORD \<le> enum_index t)"
      using all0 by (auto simp: type_score_iff)
    ultimately show ?thesis using cc by blast
  next
    case False
    then have cc: "\<exists>c. classify_content U content = Some (fst r, c)"
      by (simp add: classify_content_def pm Let_def case_prod_beta)
    moreover have "type_score U content (fst r) = Some (snd r)"
      using rin by (simp add: type_score_iff)
    moreover have "\<forall>t s. type_score U content t = Some s \<longrightarrow>
            s \<le> snd r \<and> (s = snd r \<longrightarrow> enum_index (fst r) \<le> enum_index t)"
      using bound by (simp add: type_score_iff)
    ultimately show ?thesis by blast
  qed
qed

theorem classify_first_maximum_witness:
  "classify_content basic_runtime [20107, 25925, 32, 21457, 31080] = Some (ACCIDENT_REPORT, 1 / 7)
   \<and> type_score basic_runtime [20107, 25925, 32, 21457, 31080] ACCIDENT_REPORT = Some 1
   \<and> type_score basic_runtime [20107, 25925, 32, 21457, 31080] INVOICE = Some 1
   \<and> type_score basic_runtime [20107, 25925, 32, 21457, 31080] MEDICAL_RECORD = Some 0
   \<and> enum_index ACCIDENT_REPORT \<le> enum_index INVOICE"
proof -
  let ?T = "[20107, 25925, 32, 21457, 31080] :: ustring"
  have sc: "scores_of basic_runtime ?T =
     [(MEDICAL_RECORD, 0), (ACCIDENT_REPORT, 1), (INVOICE, 1), (IDENTITY_CARD, 0),
      (BANK_STATEMENT, 0), (INSURANCE_CONTRACT, 0)]"
    by (simp add: scores_of_def keyword_mapping_def keyword_score_def basic_runtime_def
        basic_lower_def)
  have cc: "classify_content basic_runtime ?T = Some (ACCIDENT_REPORT, 1 / 7)"
    by (simp add: classify_content_def sc py_max_key_def total_keywords_val keyword_mapping_def)
  from classify_first_maximum[of basic_runtime ?T]
  obtain p c m where "classify_content basic_runtime ?T = Some (p, c)"
    and "type_score basic_runtime ?T p = Some m"
    and "\<forall>t s. type_score basic_runtime ?T t = Some s \<longrightarrow>
            s \<le> m \<and> (s = m \<longrightarrow> enum_index p \<le> enum_index t)" by blast
  then have "enum_index ACCIDENT_REPORT \<le> enum_index INVOICE"
    using cc by (auto simp: type_score_def sc)
  then show ?thesis using cc by (simp add: type_score_def sc)
qed

text \<open>
  Claim C9.  Appending an occurrence of one of the keywords of type \<open>X\<close> to a text
  never decreases the score of \<open>X\<close>.  The hypothesis on \<open>str_lower\<close> is what the
  proof needs of Python's \<open>str.lower\<close>: lower-casing the extended text extends the
  lower-cased text (\<open>str.lower\<close> maps a text character by character, but for a capital
  sigma, whose image depends on the cased letters around it; a keyword of the tables
  has no cased letter).
\<close>

theorem score_monotone_append:
  assumes "map_of keyword_mapping X = Some kws" and "k \<in> set kws"
    and "\<exists>s. str_lower U (T @ k) = str_lower U T @ s"
  shows "\<exists>s s'. type_score U T X = Some s \<and> type_score U (T @ k) X = Some s' \<and> s \<le> s'"
proof -
  have "type_score U C X = Some (keyword_score U (str_lower U C) kws)" for C
    using assms(1) by (cases X) (simp_all add: type_score_def scores_of_def keyword_mapping_def)
  moreover obtain s where "str_lower U (T @ k) = str_lower U T @ s"
    using assms(3) by blast
  ultimately show ?thesis by (simp add: keyword_score_mono)
qed

theorem score_monotone_append_witness:
  "type_score basic_runtime [65, 66] INVOICE = Some 0
   \<and> type_score basic_runtime ([65, 66] @ [21457, 31080]) INVOICE = Some 1"
proof -
  let ?U = "basic_runtime"
  have a: "map_of keyword_mapping INVOICE =
             Some [[21457, 31080], [37329, 39069], [36153, 29992], [25910, 25454],
                   [32467, 31639], [25910, 36153], [20973, 35777]]"
    by (simp add: keyword_mapping_def)
  have b: "\<exists>s. str_lower ?U ([65, 66] @ [21457, 31080]) = str_lower ?U [65, 66] @ s"
    by (simp add: basic_runtime_def)
  from score_monotone_append[OF a _ b]
  obtain s s' where "type_score ?U [65, 66] INVOICE = Some s"
    and "type_score ?U ([65, 66] @ [21457, 31080]) INVOICE = Some s'" and "s \<le> s'" by auto
  then show ?thesis
    by (simp add: type_score_def scores_of_def keyword_mapping_def keyword_score_def
        basic_runtime_def basic_lower_def)
qed

section \<open>Properties of the field merge and of the confidence\<close>

lemma merge_as_concat:
  "foldl (\<lambda>merged result. foldl merge_field merged (extracted_fields result)) m rs
     = foldl merge_field m (concat (map extracted_fields rs))"
  by (induction rs arbitrary: m) simp_all

lemma merge_flat:
  "merge_extraction_results rs = foldl merge_field Map.empty (concat (map extracted_fields rs))"
proof -
  have "merge_extraction_results rs
          = foldl (\<lambda>merged result. foldl merge_field merged (extracted_fields result)) Map.empty rs"
    unfolding merge_extraction_results_def by simp
  then show ?thesis by (simp add: merge_as_concat)
qed

lemma merge_field_other:
  "\<forall>g\<in>set ys. field_name g \<noteq> k \<Longrightarrow> foldl merge_field m ys k = m k"
  by (induction ys arbitrary: m) (auto simp: merge_field_def)

lemma merge_field_last:
  assumes "\<forall>g\<in>set ys. field_name g \<noteq> field_name f"
  shows "foldl merge_field m (xs @ f # ys) (field_name f)
           = Some \<lparr>entry_value = field_value f, entry_confidence = ExtractedField.confidence f\<rparr>"
  using merge_field_other[OF assms] by (simp add: merge_field_def)

text \<open>
  Claim C7.  The merged field map is keyed by the field name and the last write wins:
  a field of a document is what the map holds under its name when no later field of
  that document and no field of a later document has the same name, whatever the
  earlier documents and fields hold under that name.
\<close>

theorem merge_last_write_wins:
  assumes "extraction_results = before @ doc # after"
    and "extracted_fields doc = pre @ f # post"
    and "\<forall>g\<in>set post. field_name g \<noteq> field_name f"
    and "\<forall>r\<in>set after. \<forall>g\<in>set (extracted_fields r). field_name g \<noteq> field_name f"
  shows "merge_extraction_results extraction_results (field_name f)
           = Some \<lparr>entry_value = field_value f, entry_confidence = ExtractedField.confidence f\<rparr>"
proof -
  let ?xs = "concat (map extracted_fields before) @ pre"
  let ?ys = "post @ concat (map extracted_fields after)"
  have "concat (map extracted_fields extraction_results) = ?xs @ f # ?ys"
    using assms(1,2) by simp
  moreover have "\<forall>g\<in>set ?ys. field_name g \<noteq> field_name f"
    using assms(3,4) by auto
  ultimately show ?thesis
    using merge_field_last[of ?ys f Map.empty ?xs] by (simp add: merge_flat)
qed

theorem merge_last_write_wins_witness:
  "merge_extraction_results
     [\<lparr>document_id = u ''d1'',
       extracted_fields = [\<lparr>field_name = u ''diagnosis'', field_value = u ''flu'',
                             confidence = 9 / 10, page_number = None, position = None\<rparr>],
       extraction_accuracy = 69 / 100\<rparr>,
      \<lparr>document_id = u ''d2'',
       extracted_fields = [\<lparr>field_name = u ''diagnosis'', field_value = u ''cold'',
                             confidence = 9 / 10, page_number = None, position = None\<rparr>],
       extraction_accuracy = 69 / 100\<rparr>]
     (u ''diagnosis'')
   = Some \<lparr>entry_value = u ''cold'', entry_confidence = 9 / 10\<rparr>"
proof -
  let ?f1 = "\<lparr>field_name = u ''diagnosis'', field_value = u ''flu'',
                             confidence = 9 / 10, page_number = None, position = None\<rparr>"
  let ?f2 = "\<lparr>field_name = u ''diagnosis'', field_value = u ''cold'',
                             confidence = 9 / 10, page_number = None, position = None\<rparr>"
  let ?d1 = "\<lparr>document_id = u ''d1'', extracted_fields = [?f1], extraction_accuracy = 69 / 100\<rparr>"
  let ?d2 = "\<lparr>document_id = u ''d2'', extracted_fields = [?f2], extraction_accuracy = 69 / 100\<rparr>"
  have "merge_extraction_results [?d1, ?d2] (field_name ?f2)
           = Some \<lparr>entry_value = field_value ?f2, entry_confidence = ExtractedField.confidence ?f2\<rparr>"
    by (rule merge_last_write_wins[of _ "[?d1]" ?d2 "[]" "[]" ?f2 "[]"]) simp_all
  then show ?thesis by simp
qed



section \<open>Properties of the liability evaluator\<close>

text \<open>\<open>py_round2\<close> rounds to two decimal places: to a hundredth at most 0.005 away.\<close>

lemma round_half_even_near: "\<bar>of_int (round_half_even y) - y\<bar> \<le> 1 / 2"
proof -
  have a: "of_int \<lfloor>y\<rfloor> \<le> y" and b: "y < of_int \<lfloor>y\<rfloor> + 1" by linarith+
  show ?thesis
    unfolding round_half_even_def Let_def using a b
    by (auto simp: abs_le_iff)
qed

lemma py_round2_nearest:
  "\<bar>py_round2 x - x\<bar> \<le> 1 / 200 \<and> (\<exists>n::int. py_round2 x = of_int n / 100)"
proof -
  have "\<bar>of_int (round_half_even (x * 100)) - x * 100\<bar> \<le> 1 / 2"
    by (rule round_half_even_near)
  then have "\<bar>of_int (round_half_even (x * 100)) / 100 - x\<bar> \<le> 1 / 200"
    by (simp add: abs_le_iff field_simps)
  then show ?thesis unfolding py_round2_def by blast
qed

text \<open>The confidence of an evaluation that returns is at least 0.1.\<close>

lemma evaluate_confidence_floor:
  "evaluate U now flds p = Inr ev \<Longrightarrow> 1 / 10 \<le> LiabilityEvaluation.confidence ev"
  by (auto simp: evaluate_def calculate_evaluation_confidence_def Let_def
      split: prod.splits sum.splits option.splits limit_value.splits)

lemma u_simps: "u [] = []" "u (c # cs) = of_char c # u cs"
  by (simp_all add: u_def)

lemma policy_lookup:
  "map_of policy_terms_db (u ''health_insurance_basic'') = Some health_insurance_basic"
  by (simp add: policy_terms_db_def u_simps)

lemma parse_policy_terms_const: "parse_policy_terms contract_terms = Inr health_insurance_basic"
  by (simp add: parse_policy_terms_def policy_lookup)

lemma basic_limit: "map_of (limits health_insurance_basic) annual_limit_key = Some (Num 100000)"
  by (simp add: health_insurance_basic_def annual_limit_key_def)


lemma evaluate_coverage_limit:
  "evaluate U now flds health_insurance_basic = Inr ev \<Longrightarrow> coverage_limit ev = Some 100000"
  by (auto simp: evaluate_def basic_limit Let_def split: prod.splits sum.splits)

lemmas runtime_defs = basic_runtime_def basic_lower_def basic_decimal_def py_whitespace_def
  basic_word_def fold_case_def class_match_def












lemmas evaluator_defs = evaluate_def check_coverage_def check_exclusions_def apply_risk_rules_def
  risk_rules_def check_gender_age_inconsistency_def derive_age_def isdigit_def
  check_pre_existing_conditions_def check_abnormal_cost_def check_medication_diagnosis_match_def
  invoice_amount_def invoice_numbers_def get_value_def replace_char_def findall_def
  number_pattern_def seq_def findall_item_def whole_match_def item_text_def py_float_def digits_value_def
  calculate_recommended_payout_def calculate_evaluation_confidence_def
  generate_evaluation_reasons_def annual_limit_key_def self_pay_key_def limit_number_def



text \<open>
  Claim C10.  The \<open>contract_terms\<close> argument has no effect: the policy is always the
  basic health insurance bundle, two evaluations that differ only in
  \<open>contract_terms\<close> are equal, and an evaluation that returns has the coverage limit
  100000.
\<close>

theorem contract_terms_ignored:
  "parse_policy_terms contract_terms = Inr health_insurance_basic
   \<and> evaluate_results U now extraction_results contract_terms
       = evaluate_results U now extraction_results contract_terms'
   \<and> evaluate_claim U now claim_id contract_terms = evaluate_claim U now claim_id contract_terms'
   \<and> (\<forall>ev. evaluate_results U now extraction_results contract_terms = Inr ev
          \<longrightarrow> coverage_limit ev = Some 100000)"
  by (simp add: evaluate_claim_def evaluate_results_def parse_policy_terms_const
      evaluate_coverage_limit)

lemma eval_empty:
  "evaluate basic_runtime now Map.empty health_insurance_basic =
     Inr \<lparr>coverage_applicable = False, exclusion_factors = [], coverage_limit = Some 100000,
          recommended_payout = 0,
          evaluation_reasons =
            [[26696, 20214, 21487, 33021, 19981, 22312, 20445, 38556, 33539, 22260, 20869],
             [32570, 23569, 35786, 26029, 20449, 24687, 65292, 26080, 27861, 30830, 35748,
              26159, 21542, 22312, 20445, 38556, 33539, 22260, 20869]],
          confidence = 3 / 5\<rparr>"
  by (simp add: evaluator_defs health_insurance_basic_def u_simps runtime_defs)

theorem contract_terms_ignored_witness:
  "evaluate_claim basic_runtime 737425 (u ''c1'') None
     = evaluate_claim basic_runtime 737425 (u ''c1'') (Some (u ''accident_insurance''))
   \<and> map_sum id coverage_limit (evaluate_claim basic_runtime 737425 (u ''c1'') (Some (u ''accident_insurance'')))
       = Inr (Some 100000)"
proof -
  note t = contract_terms_ignored[of "Some (u ''accident_insurance'')" basic_runtime 737425 "[]" None "u ''c1''"]
  have r: "evaluate_results basic_runtime 737425 [] (Some (u ''accident_insurance''))
      = evaluate basic_runtime 737425 Map.empty health_insurance_basic"
    using t by (simp add: evaluate_results_def merge_extraction_results_def)
  obtain ev where ev: "evaluate_results basic_runtime 737425 [] (Some (u ''accident_insurance'')) = Inr ev"
    using r eval_empty by simp
  then have "coverage_limit ev = Some 100000" using t by blast
  moreover have "evaluate_claim basic_runtime 737425 (u ''c1'') (Some (u ''accident_insurance'')) = Inr ev"
    using ev by (simp add: evaluate_claim_def get_claim_data_def)
  ultimately show ?thesis using t by simp
qed

section \<open>The evaluation and the clock\<close>

lemma derive_age_clock:
  assumes "isdigit U (get_value flds (u ''age'') []) \<or> get_value flds (u ''birth_date'') [] = []"
  shows "derive_age U now flds = derive_age U now' flds"
  using assms by (auto simp: derive_age_def Let_def)

lemma gender_age_clock:
  assumes "isdigit U (get_value flds (u ''age'') []) \<or> get_value flds (u ''birth_date'') [] = []"
  shows "check_gender_age_inconsistency U now flds = check_gender_age_inconsistency U now' flds"
  by (simp add: check_gender_age_inconsistency_def derive_age_clock[OF assms, of now now'])

lemma risk_rules_clock:
  assumes "isdigit U (get_value flds (u ''age'') []) \<or> get_value flds (u ''birth_date'') [] = []"
  shows "apply_risk_rules U now flds = apply_risk_rules U now' flds"
  by (simp add: apply_risk_rules_def risk_rules_def gender_age_clock[OF assms, of now now']
      cong: sum.case_cong)

lemma evaluate_clock:
  assumes "isdigit U (get_value flds (u ''age'') []) \<or> get_value flds (u ''birth_date'') [] = []"
  shows "evaluate U now flds p = evaluate U now' flds p"
  by (simp add: evaluate_def risk_rules_clock[OF assms, of now now'])

lemma date_2010: "strptime_ymd basic_runtime (u ''2010-01-01'') = Some 733773"
  by (simp add: strptime_ymd_def date_pattern_def seq_def u_simps runtime_defs group_text_def
      digits_value_def days_in_month_def ymd2ord_def is_leap_def upto.simps)

lemmas date_defs = strptime_ymd_def date_pattern_def group_text_def days_in_month_def
  ymd2ord_def is_leap_def upto.simps

lemma eval_minor_2020:
  "evaluate basic_runtime 737425 minor_fields health_insurance_basic =
     Inr \<lparr>coverage_applicable = True, exclusion_factors = [], coverage_limit = Some 100000,
          recommended_payout = 0,
          evaluation_reasons =
            [[26696, 20214, 22312, 20445, 38505, 20445, 38556, 33539, 22260, 20869],
             [26816, 27979, 21040, 49, 20010, 39118, 38505, 28857, 58, 32,
              24615, 21035, 24180, 40836, 19981, 31526]],
          confidence = 4 / 5\<rparr>"
  by (simp add: evaluator_defs date_defs minor_fields_def health_insurance_basic_def u_simps
      runtime_defs py_round2_def round_half_even_def)

lemma eval_minor_2030:
  "evaluate basic_runtime 741078 minor_fields health_insurance_basic =
     Inr \<lparr>coverage_applicable = True, exclusion_factors = [], coverage_limit = Some 100000,
          recommended_payout = 0,
          evaluation_reasons =
            [[26696, 20214, 22312, 20445, 38505, 20445, 38556, 33539, 22260, 20869],
             [26410, 21457, 29616, 26126, 26174, 39118, 38505, 25110, 20813, 36131, 24773,
              20917]],
          confidence = 9 / 10\<rparr>"
  by (simp add: evaluator_defs date_defs minor_fields_def health_insurance_basic_def u_simps
      runtime_defs py_round2_def round_half_even_def)

text \<open>
  Claim C1, as stated, fails: the gender/age rule computes the age from the birth date
  and \<open>datetime.now()\<close>, so the same fields and the same policy give different
  reasons and a different confidence on 2020-01-01 (age 10, the rule fires) and on
  2030-01-01 (age 20).
\<close>

theorem evaluate_depends_on_clock:
  "evaluate basic_runtime 737425 minor_fields health_insurance_basic
     \<noteq> evaluate basic_runtime 741078 minor_fields health_insurance_basic"
  by (simp add: eval_minor_2020 eval_minor_2030)

text \<open>
  Claim C1, amended.  The evaluation is a function of the merged fields, the policy
  terms and the current date.  It does not depend on the date when the age field is a
  digit string or the birth date is absent or empty; \<open>evaluate_claim\<close>, which reads
  the stubbed claim data, never depends on it.
\<close>

theorem evaluate_clock_independent:
  "(isdigit U (get_value flds (u ''age'') []) \<or> get_value flds (u ''birth_date'') [] = []
      \<longrightarrow> evaluate U now flds p = evaluate U now' flds p)
   \<and> evaluate_claim U now claim_id contract_terms = evaluate_claim U now' claim_id contract_terms"
proof
  show "isdigit U (get_value flds (u ''age'') []) \<or> get_value flds (u ''birth_date'') [] = []
      \<longrightarrow> evaluate U now flds p = evaluate U now' flds p"
    using evaluate_clock by blast
  have "get_value Map.empty (u ''birth_date'') [] = []"
    by (simp add: get_value_def)
  then have "evaluate U now Map.empty q = evaluate U now' Map.empty q" for q
    using evaluate_clock by blast
  then show "evaluate_claim U now claim_id contract_terms
               = evaluate_claim U now' claim_id contract_terms"
    by (simp add: evaluate_claim_def evaluate_results_def get_claim_data_def
        merge_extraction_results_def cong: sum.case_cong)
qed

theorem evaluate_clock_independent_witness:
  "evaluate basic_runtime 737425 minor_fields_with_age health_insurance_basic
     = evaluate basic_runtime 741078 minor_fields_with_age health_insurance_basic"
proof -
  have "isdigit basic_runtime (get_value minor_fields_with_age (u ''age'') [])"
    by (simp add: isdigit_def get_value_def minor_fields_with_age_def u_simps basic_runtime_def)
  then show ?thesis
    using evaluate_clock_independent[of basic_runtime minor_fields_with_age 737425
        health_insurance_basic 741078] by blast
qed

section \<open>Properties of the field extractor\<close>

lemma dropWhile_fix: "xs = [] \<or> \<not> P (hd xs) \<Longrightarrow> dropWhile P xs = xs"
  by (cases xs) auto

lemma dropWhile_head: "dropWhile P xs = [] \<or> \<not> P (hd (dropWhile P xs))"
  using hd_dropWhile by blast

lemma strip_ends:
  "strip U s = [] \<or> (\<not> is_space U (hd (strip U s)) \<and> \<not> is_space U (last (strip U s)))"
proof -
  let ?P = "is_space U"
  let ?t = "dropWhile ?P s"
  let ?w = "strip U s"
  have w: "?w = rev (dropWhile ?P (rev ?t))" by (simp add: strip_def)
  show ?thesis
  proof (cases "?w = []")
    case True then show ?thesis by simp
  next
    case False
    then have ne: "dropWhile ?P (rev ?t) \<noteq> []" using w by simp
    then have "\<not> ?P (hd (dropWhile ?P (rev ?t)))" using dropWhile_head[of ?P "rev ?t"] by blast
    then have l: "\<not> ?P (last ?w)" using w ne by (simp add: last_rev)
    obtain k where k: "dropWhile ?P (rev ?t) = drop k (rev ?t)"
      by (metis dropWhile_eq_drop)
    have "?w = take (length ?t - k) ?t" using w k by (simp add: rev_drop)
    then have "hd ?w = hd ?t" using False by (metis hd_take take_eq_Nil gr0I)
    moreover have "?t \<noteq> []"
    proof
      assume e: "?t = []"
      have "?w = []" by (simp add: strip_def e)
      then show False using False by simp
    qed
    ultimately have "\<not> ?P (hd ?w)" using dropWhile_head[of ?P s] by auto
    then show ?thesis using l by simp
  qed
qed

lemma strip_idem: "strip U (strip U s) = strip U s"
proof -
  let ?P = "is_space U"
  let ?w = "strip U s"
  have a: "dropWhile ?P ?w = ?w"
    using strip_ends[of U s] by (intro dropWhile_fix) auto
  have "rev ?w = [] \<or> \<not> ?P (hd (rev ?w))"
    using strip_ends[of U s] by (auto simp: hd_rev)
  then have "dropWhile ?P (rev ?w) = rev ?w" by (rule dropWhile_fix)
  then have "rev (dropWhile ?P (rev (dropWhile ?P ?w))) = ?w" using a by simp
  then show ?thesis by (simp add: strip_def)
qed

lemma findall_search:
  "(case search U icase r s of
      None \<Rightarrow> findall U icase r s = []
    | Some (s0, st) \<Rightarrow> \<exists>rest. findall U icase r s = findall_item r s0 st # rest)"
  unfolding findall_def
  by (induction s) (auto split: list.splits option.splits)

lemma last_groups:
  assumes "2 \<le> n"
  shows "last (g 1 # map g [2..<Suc n]) = g n"
proof -
  have "[2..<Suc n] = [2..<n] @ [n]" using assms by simp
  then show ?thesis by simp
qed

lemma item_value:
  "(case findall_item r s st of MStr v \<Rightarrow> v | MTuple v vs \<Rightarrow> last (v # vs)) = selected_value r s st"
proof -
  consider "ngroups r = 0" | "ngroups r = 1" | "2 \<le> ngroups r" by linarith
  then show ?thesis
  proof cases
    case 3
    then show ?thesis
      using last_groups[OF 3, of "group_text (snd st)"]
      by (simp add: findall_item_def selected_value_def Let_def)
  qed (simp_all add: findall_item_def selected_value_def)
qed

lemma extract_loop_by: "extract_loop U content defs = extract_by selected_value U content defs"
proof (induction defs)
  case Nil
  then show ?case by (simp add: extract_by_def List.map_filter_simps)
next
  case (Cons fd defs)
  show ?case
  proof (cases "search U True (fd_pattern fd) content")
    case None
    then have "findall U True (fd_pattern fd) content = []"
      using findall_search[of U True "fd_pattern fd" content] by simp
    then show ?thesis using None Cons.IH by (simp add: extract_by_def List.map_filter_simps)
  next
    case (Some m)
    obtain s0 st where m: "m = (s0, st)" by (cases m)
    obtain rest where f: "findall U True (fd_pattern fd) content = findall_item (fd_pattern fd) s0 st # rest"
      using findall_search[of U True "fd_pattern fd" content] Some m by auto
    show ?thesis using Some m f Cons.IH item_value[of "fd_pattern fd" s0 st]
      by (simp add: extract_by_def List.map_filter_simps Let_def)
  qed
qed

lemma extract_fields_for:
  "extract_fields_by_type U content doc_type = extract_loop U content (fields_for doc_type)"
  by (simp add: extract_fields_by_type_def fields_for_def split: option.splits)

lemma extract_by_names:
  "map field_name (extract_by sel U content defs)
     = map fd_name (filter (\<lambda>fd. search U True (fd_pattern fd) content \<noteq> None) defs)"
  by (induction defs) (auto simp: extract_by_def List.map_filter_simps split: option.splits)

lemma extract_by_values:
  "f \<in> set (extract_by sel U content defs) \<Longrightarrow> \<exists>v. field_value f = strip U v"
  by (induction defs) (auto simp: extract_by_def List.map_filter_simps split: option.splits)

lemmas regex_defs = seq_def fold_case_def class_match_def group_text_def whole_match_def

lemmas extract_eval = extract_fields_by_type_def field_definitions_def findall_def
  findall_item_def regex_defs strip_def u_simps basic_runtime_def basic_lower_def
  py_whitespace_def

lemmas extract_by_eval = extract_by_def fields_for_def field_definitions_def
  List.map_filter_simps claimed_value_def selected_value_def
  regex_defs strip_def u_simps basic_runtime_def basic_lower_def py_whitespace_def

text \<open>
  Claim C2, as stated, fails: on the text of the label, a colon and one blank, the
  pattern of \<open>patient_name\<close> matches with the blank as its group, and the field is in
  the result with the empty value.
\<close>

theorem empty_value_kept:
  "extract_fields_by_type basic_runtime [24739, 32773, 65306, 32] MEDICAL_RECORD =
     [\<lparr>field_name = u ''patient_name'', field_value = [], confidence = 9 / 10,
       page_number = None, position = None\<rparr>]"
  by (simp add: extract_eval)

text \<open>
  Claim C2, amended.  Every extracted value is trimmed: trimming it again changes
  nothing, and it is empty or neither starts nor ends with a whitespace character.  A
  field is in the result exactly when its pattern has a match in the text.
\<close>

theorem extracted_values_trimmed:
  "(\<forall>f\<in>set (extract_fields_by_type U content doc_type).
       strip U (field_value f) = field_value f
       \<and> (field_value f = []
          \<or> (\<not> is_space U (hd (field_value f)) \<and> \<not> is_space U (last (field_value f)))))
   \<and> map field_name (extract_fields_by_type U content doc_type)
       = map fd_name (filter (\<lambda>fd. search U True (fd_pattern fd) content \<noteq> None)
                             (fields_for doc_type))"
proof
  have eq: "extract_fields_by_type U content doc_type
              = extract_by selected_value U content (fields_for doc_type)"
    by (simp add: extract_fields_for extract_loop_by)
  show "\<forall>f\<in>set (extract_fields_by_type U content doc_type).
       strip U (field_value f) = field_value f
       \<and> (field_value f = []
          \<or> (\<not> is_space U (hd (field_value f)) \<and> \<not> is_space U (last (field_value f))))"
  proof
    fix f assume "f \<in> set (extract_fields_by_type U content doc_type)"
    then obtain v where "field_value f = strip U v"
      using eq extract_by_values by metis
    then show "strip U (field_value f) = field_value f
       \<and> (field_value f = []
          \<or> (\<not> is_space U (hd (field_value f)) \<and> \<not> is_space U (last (field_value f))))"
      using strip_idem[of U v] strip_ends[of U v] by simp
  qed
  show "map field_name (extract_fields_by_type U content doc_type)
       = map fd_name (filter (\<lambda>fd. search U True (fd_pattern fd) content \<noteq> None)
                             (fields_for doc_type))"
    by (simp add: eq extract_by_names)
qed

lemma extract_padded:
  "extract_fields_by_type basic_runtime [24739, 32773, 65306, 32, 24352, 19977, 32] MEDICAL_RECORD =
     [\<lparr>field_name = u ''patient_name'', field_value = [24352, 19977], confidence = 9 / 10,
       page_number = None, position = None\<rparr>]"
  by (simp add: extract_eval)

theorem extracted_values_trimmed_witness:
  "extract_fields_by_type basic_runtime [24739, 32773, 65306, 32, 24352, 19977, 32] MEDICAL_RECORD =
     [\<lparr>field_name = u ''patient_name'', field_value = [24352, 19977], confidence = 9 / 10,
       page_number = None, position = None\<rparr>]
   \<and> strip basic_runtime [24352, 19977] = [24352, 19977]
   \<and> \<not> is_space basic_runtime 24352 \<and> \<not> is_space basic_runtime 19977"
  using extracted_values_trimmed[of basic_runtime
      "[24739, 32773, 65306, 32, 24352, 19977, 32]" MEDICAL_RECORD]
  by (simp add: extract_padded)

text \<open>
  Claim C3, as stated, fails: the pattern of \<open>patient_name\<close> has one group, and the
  value of the field is that group, not the whole match with its label.
\<close>

theorem single_group_is_value:
  "extract_fields_by_type basic_runtime [24739, 32773, 65306, 24352, 19977] MEDICAL_RECORD =
     [\<lparr>field_name = u ''patient_name'', field_value = [24352, 19977], confidence = 9 / 10,
       page_number = None, position = None\<rparr>]
   \<and> extract_by claimed_value basic_runtime [24739, 32773, 65306, 24352, 19977]
         (fields_for MEDICAL_RECORD) =
     [\<lparr>field_name = u ''patient_name'', field_value = [24739, 32773, 65306, 24352, 19977],
       confidence = 9 / 10, page_number = None, position = None\<rparr>]"
  by (simp add: extract_eval extract_by_eval)

text \<open>
  Claim C3, amended.  For every field definition of the document type the extractor
  takes the first match of the pattern in the text, matched case-insensitively; the
  value is the last group of that match when the pattern has a group (one or several),
  and the whole match only when it has none; the value is trimmed.
\<close>

theorem extraction_takes_first_match:
  "extract_fields_by_type U content doc_type
     = extract_by selected_value U content (fields_for doc_type)"
  by (simp add: extract_fields_for extract_loop_by)

theorem extraction_takes_first_match_witness:
  "extract_by selected_value basic_runtime
       ([35786, 26029, 65306, 24613, 24615, 38417, 23614, 28814])
       (fields_for MEDICAL_RECORD) =
     [\<lparr>field_name = u ''diagnosis'', field_value = [24613, 24615, 38417, 23614, 28814],
       confidence = 9 / 10, page_number = None, position = None\<rparr>]"
proof -
  have "extract_fields_by_type basic_runtime
       ([35786, 26029, 65306, 24613, 24615, 38417, 23614, 28814]) MEDICAL_RECORD =
     [\<lparr>field_name = u ''diagnosis'', field_value = [24613, 24615, 38417, 23614, 28814],
       confidence = 9 / 10, page_number = None, position = None\<rparr>]"
    by (simp add: extract_eval)
  then show ?thesis
    using extraction_takes_first_match[of basic_runtime
        "[35786, 26029, 65306, 24613, 24615, 38417, 23614, 28814]" MEDICAL_RECORD]
    by simp
qed

end
